theory Spec2Isabelle
  imports Complex_Main "HOL-Library.List_Lexorder"
begin

section \<open>Python values\<close>

text \<open>
  A Python \<^verbatim>\<open>str\<close> is a sequence of Unicode code points: \<^verbatim>\<open>len\<close> counts code points,
  a slice cuts between them, and two strings compare lexicographically by code point (a
  proper prefix is smaller). So a string is a list of code points, ordered by the
  lexicographic order on lists. \<open>py\<close> turns a literal of the source into such a list.
\<close>

type_synonym pystr = "nat list"

definition py :: "string \<Rightarrow> pystr" where
  "py s = map of_char s"

text \<open>
  What \<^verbatim>\<open>response.json()\<close> returns: \<^verbatim>\<open>None\<close>, a bool, an int, a float, a str, a list or
  a dict with string keys. A dict is an association list read by \<open>map_of\<close>.
\<close>

datatype pyfloat = Finite rat | PosInf | NegInf | NaN

datatype json =
    JNull
  | JBool bool
  | JInt int
  | JFloat pyfloat
  | JStr pystr
  | JArr "json list"
  | JObj "(pystr \<times> json) list"

text \<open>The exceptions that nothing in the two scripts catches, and how a run can end early.\<close>

datatype pyexc = TypeError | KeyError | AttributeError | IndexError

datatype failure = SysExit int | Uncaught pyexc

text \<open>The exit status of the process: \<^verbatim>\<open>sys.exit(n)\<close> gives n, an uncaught exception 1.\<close>

fun exit_code :: "failure + 'a \<Rightarrow> int" where
  "exit_code (Inl (SysExit n)) = n"
| "exit_code (Inl (Uncaught x)) = 1"
| "exit_code (Inr v) = 0"

text \<open>Truth value of an object, as \<^verbatim>\<open>if not data\<close> and \<^verbatim>\<open>if ... and item["name"]\<close> test it.\<close>

fun truthy :: "json \<Rightarrow> bool" where
  "truthy JNull = False"
| "truthy (JBool b) = b"
| "truthy (JInt i) = (i \<noteq> 0)"
| "truthy (JFloat (Finite r)) = (r \<noteq> 0)"
| "truthy (JFloat f) = True"
| "truthy (JStr s) = (s \<noteq> [])"
| "truthy (JArr xs) = (xs \<noteq> [])"
| "truthy (JObj d) = (d \<noteq> [])"

text \<open>\<^verbatim>\<open>obj.get(key, default)\<close>: only a dict has the method.\<close>

fun dict_get :: "json \<Rightarrow> pystr \<Rightarrow> json \<Rightarrow> pyexc + json" where
  "dict_get (JObj d) k dflt = Inr (case map_of d k of None \<Rightarrow> dflt | Some v \<Rightarrow> v)"
| "dict_get obj k dflt = Inl AttributeError"

text \<open>\<^verbatim>\<open>data[0]\<close>: the first element of a list, the first character of a str; a dict from
  JSON has string keys only, so the key 0 is missing.\<close>

fun getitem0 :: "json \<Rightarrow> pyexc + json" where
  "getitem0 (JArr []) = Inl IndexError"
| "getitem0 (JArr (x # xs)) = Inr x"
| "getitem0 (JStr []) = Inl IndexError"
| "getitem0 (JStr (c # s)) = Inr (JStr [c])"
| "getitem0 (JObj d) = Inl KeyError"
| "getitem0 obj = Inl TypeError"

text \<open>\<^verbatim>\<open>"name" in item\<close>: a key of a dict, an element of a list, a substring of a str.\<close>

fun contains_str :: "pystr \<Rightarrow> pystr \<Rightarrow> bool" where
  "contains_str k [] = (k = [])"
| "contains_str k (c # s) = (take (length k) (c # s) = k \<or> contains_str k s)"

fun str_in :: "pystr \<Rightarrow> json \<Rightarrow> pyexc + bool" where
  "str_in k (JObj d) = Inr (map_of d k \<noteq> None)"
| "str_in k (JArr xs) = Inr (JStr k \<in> set xs)"
| "str_in k (JStr s) = Inr (contains_str k s)"
| "str_in k obj = Inl TypeError"

text \<open>\<^verbatim>\<open>item["name"]\<close>: a string subscript.\<close>

fun getitem_str :: "json \<Rightarrow> pystr \<Rightarrow> pyexc + json" where
  "getitem_str (JObj d) k = (case map_of d k of None \<Rightarrow> Inl KeyError | Some v \<Rightarrow> Inr v)"
| "getitem_str obj k = Inl TypeError"

text \<open>What a \<^verbatim>\<open>for\<close> over the object visits: the elements of a list, the keys of a dict,
  the characters of a str.\<close>

fun py_iter :: "json \<Rightarrow> pyexc + json list" where
  "py_iter (JArr xs) = Inr xs"
| "py_iter (JObj d) = Inr (map JStr (remdups (map fst d)))"
| "py_iter (JStr s) = Inr (map (\<lambda>c. JStr [c]) s)"
| "py_iter obj = Inl TypeError"

fun py_len :: "json \<Rightarrow> pyexc + int" where
  "py_len (JArr xs) = Inr (int (length xs))"
| "py_len (JObj d) = Inr (int (length (remdups (map fst d))))"
| "py_len (JStr s) = Inr (int (length s))"
| "py_len obj = Inl TypeError"

text \<open>\<^verbatim>\<open>s.strip()\<close> removes the white space of both ends; only a str has the method.\<close>

definition is_space :: "nat \<Rightarrow> bool" where
  "is_space c = ((9 \<le> c \<and> c \<le> 13) \<or> (28 \<le> c \<and> c \<le> 32) \<or> c = 133 \<or> c = 160
     \<or> c = 5760 \<or> (8192 \<le> c \<and> c \<le> 8202) \<or> c = 8232 \<or> c = 8233 \<or> c = 8239
     \<or> c = 8287 \<or> c = 12288)"

definition strip :: "pystr \<Rightarrow> pystr" where
  "strip s = rev (dropWhile is_space (rev (dropWhile is_space s)))"

fun py_strip :: "json \<Rightarrow> pyexc + pystr" where
  "py_strip (JStr s) = Inr (strip s)"
| "py_strip obj = Inl AttributeError"

text \<open>\<^verbatim>\<open>s.split("/")\<close>: the pieces between the slashes, empty ones included.\<close>

fun split_slash :: "pystr \<Rightarrow> pystr list" where
  "split_slash [] = [[]]"
| "split_slash (c # s) =
     (if c = 47 then [] # split_slash s
      else (case split_slash s of [] \<Rightarrow> [[c]] | p # ps \<Rightarrow> (c # p) # ps))"

text \<open>\<^verbatim>\<open>s.rstrip("/")\<close>.\<close>

definition rstrip_slash :: "pystr \<Rightarrow> pystr" where
  "rstrip_slash s = rev (dropWhile (\<lambda>c. c = 47) (rev s))"

text \<open>
  An element of a Python set: a list or a dict cannot be hashed, and \<^verbatim>\<open>True\<close>, \<^verbatim>\<open>1\<close> and
  \<^verbatim>\<open>1.0\<close> are one element. \<open>set_key\<close> gives the element's representative.
\<close>

fun set_key :: "json \<Rightarrow> pyexc + json" where
  "set_key (JArr xs) = Inl TypeError"
| "set_key (JObj d) = Inl TypeError"
| "set_key (JBool b) = Inr (JInt (if b then 1 else 0))"
| "set_key (JFloat (Finite r)) =
     Inr (if of_int \<lfloor>r\<rfloor> = r then JInt \<lfloor>r\<rfloor> else JFloat (Finite r))"
| "set_key v = Inr v"

text \<open>
  The two operands of the comparison in \<^verbatim>\<open>main\<close>: a list of strings (what \<^verbatim>\<open>sorted\<close>
  returns) and a set. \<^verbatim>\<open>==\<close> between a list and a set is \<^verbatim>\<open>False\<close>: neither type
  compares itself with the other.
\<close>

datatype pyobj = PyList "pystr list" | PySet "json set"

fun py_eq :: "pyobj \<Rightarrow> pyobj \<Rightarrow> bool" where
  "py_eq (PyList xs) (PyList ys) = (xs = ys)"
| "py_eq (PySet A) (PySet B) = (A = B)"
| "py_eq a b = False"

section \<open>The remote systems, the log and the configuration\<close>

datatype http_method = GET | PUT

text \<open>
  A URL is the string the source builds. The update's URL is the f-string
  \<^verbatim>\<open>f"{INFOBLOX_API_ENDPOINT}/{ea_ref}"\<close>, whose second part is an arbitrary object
  formatted by \<^verbatim>\<open>str\<close>; it is kept as the pair of the endpoint and the object.
\<close>

datatype url = Url pystr | RefUrl pystr json

record http_request =
  req_method :: http_method
  req_url :: url
  req_params :: "(pystr \<times> pystr) list"
  req_auth :: "pystr \<times> pystr"
  req_headers :: "(pystr \<times> pystr) list"
  req_json :: "json option"
  req_verify :: bool
  req_timeout :: nat
  req_proxies :: "(pystr \<times> pystr) list option"

text \<open>
  A response: its status, its text, and what \<^verbatim>\<open>response.json()\<close> gives (\<open>Inl\<close> the
  message of the exception when the body does not parse). A call either raises (the
  message of the exception) or returns a response.
\<close>

record response =
  status_code :: int
  body_text :: pystr
  body_json :: "pystr + json"

datatype outcome = Raises pystr | Responds response

text \<open>The remote side answers a request, knowing the requests made before it.\<close>

type_synonym remote = "http_request list \<Rightarrow> http_request \<Rightarrow> outcome"

datatype level = INFO | WARNING | ERROR

datatype logarg =
    LStr pystr
  | LInt int
  | LJson json
  | LStrs "pystr list"
  | LSet "json set"
  | LUrl url

text \<open>The state of a run: the requests issued so far and the log records written so far
  (level, format string, arguments).\<close>

record world =
  trace :: "http_request list"
  logged :: "(level \<times> string \<times> logarg list) list"

definition log_info :: "string \<Rightarrow> logarg list \<Rightarrow> world \<Rightarrow> world" where
  "log_info fmt args w = w\<lparr>logged := logged w @ [(INFO, fmt, args)]\<rparr>"

definition log_warning :: "string \<Rightarrow> logarg list \<Rightarrow> world \<Rightarrow> world" where
  "log_warning fmt args w = w\<lparr>logged := logged w @ [(WARNING, fmt, args)]\<rparr>"

definition log_error :: "string \<Rightarrow> logarg list \<Rightarrow> world \<Rightarrow> world" where
  "log_error fmt args w = w\<lparr>logged := logged w @ [(ERROR, fmt, args)]\<rparr>"

text \<open>\<^verbatim>\<open>requests.get\<close> and \<^verbatim>\<open>requests.put\<close>: one request, recorded, and its outcome.\<close>

definition requests_send :: "remote \<Rightarrow> http_request \<Rightarrow> world \<Rightarrow> outcome \<times> world" where
  "requests_send remote req w = (remote (trace w) req, w\<lparr>trace := trace w @ [req]\<rparr>)"

text \<open>The validated configuration; the limit is kept as the text the f-string prints, the
  proxy is \<open>None\<close> when the key is absent.\<close>

record config =
  INFOBLOX_API_ENDPOINT :: pystr
  INFOBLOX_API_USERNAME :: pystr
  INFOBLOX_API_PASSWORD :: pystr
  SERVICENOW_API_USERNAME :: pystr
  SERVICENOW_API_TOKEN :: pystr
  SERVICENOW_API_ENDPOINT :: pystr
  SERVICE_NOW_API_LIMIT :: pystr
  SERVICENOW_PROXY :: "pystr option"

definition SNOW_INSTANCE_URL :: "config \<Rightarrow> pystr" where
  "SNOW_INSTANCE_URL cfg =
     (if take 4 (SERVICENOW_API_ENDPOINT cfg) \<noteq> py ''http''
      then py ''https://'' @ SERVICENOW_API_ENDPOINT cfg
      else SERVICENOW_API_ENDPOINT cfg)"

definition SNOW_CMN_LOCATION_ENDPOINT :: "config \<Rightarrow> pystr" where
  "SNOW_CMN_LOCATION_ENDPOINT cfg =
     py ''/api/now/table/cmn_location?sysparm_query=cmn_location_typeINcountry,city,campus&sysparm_limit=''
     @ SERVICE_NOW_API_LIMIT cfg @ py ''&sysparm_fields=name''"

definition EXT_ATTR_NAME :: pystr where
  "EXT_ATTR_NAME = py ''Location''"

definition VERIFY_SSL :: bool where
  "VERIFY_SSL = False"

definition ENUM_MAX_LENGTH :: nat where
  "ENUM_MAX_LENGTH = 64"

section \<open>infoblox-importer.py\<close>

definition sanitize_value :: "pystr \<Rightarrow> world \<Rightarrow> pystr \<times> world" where
  "sanitize_value v w =
     (if length v > ENUM_MAX_LENGTH
      then (take ENUM_MAX_LENGTH v,
            log_warning ''Value '%s' exceeds %d characters and will be truncated.''
              [LStr v, LInt (int ENUM_MAX_LENGTH)] w)
      else (v, w))"

text \<open>
  Each call of \<^verbatim>\<open>requests\<close> is a definition of its own: the URL and the keyword arguments
  the function builds for it. An argument the call does not pass is empty (\<open>[]\<close>, \<open>None\<close>).
  The reader's call passes no \<^verbatim>\<open>proxies\<close>.
\<close>

definition ea_get_call :: "config \<Rightarrow> pystr \<Rightarrow> http_request" where
  "ea_get_call cfg ea_name =
     \<lparr>req_method = GET,
      req_url = Url (INFOBLOX_API_ENDPOINT cfg @ py ''/extensibleattributedef?name='' @ ea_name
                     @ py ''&_return_fields=list_values''),
      req_params = [],
      req_auth = (INFOBLOX_API_USERNAME cfg, INFOBLOX_API_PASSWORD cfg),
      req_headers = [], req_json = None, req_verify = VERIFY_SSL, req_timeout = 30,
      req_proxies = None\<rparr>"

definition get_infoblox_ea_definition ::
  "config \<Rightarrow> remote \<Rightarrow> pystr \<Rightarrow> world \<Rightarrow> (failure + json \<times> json) \<times> world" where
  "get_infoblox_ea_definition cfg remote ea_name w0 =
     (let url = req_url (ea_get_call cfg ea_name);
          w1 = log_info ''Fetching Infoblox EA definition for '%s': %s'' [LStr ea_name, LUrl url] w0
      in case requests_send remote (ea_get_call cfg ea_name) w1 of
        (Raises e, w2) \<Rightarrow>
          (Inl (SysExit 1), log_error ''Exception during Infoblox EA GET request: %s'' [LStr e] w2)
      | (Responds response, w2) \<Rightarrow>
          if status_code response \<noteq> 200
          then (Inl (SysExit 1),
                log_error ''Infoblox API GET failed for EA '%s'. Status: %s, Response: %s''
                  [LStr ea_name, LInt (status_code response), LStr (body_text response)] w2)
          else (case body_json response of
            Inl e \<Rightarrow> (Inl (SysExit 1), log_error ''Error parsing Infoblox JSON: %s'' [LStr e] w2)
          | Inr data \<Rightarrow>
              if \<not> truthy data
              then (Inl (SysExit 1), log_error ''EA '%s' not found in Infoblox.'' [LStr ea_name] w2)
              else (case getitem0 data of
                Inl x \<Rightarrow> (Inl (Uncaught x), w2)
              | Inr ea_def \<Rightarrow>
                  (case dict_get ea_def (py ''_ref'') JNull of
                    Inl x \<Rightarrow> (Inl (Uncaught x), w2)
                  | Inr ea_ref \<Rightarrow>
                      (Inr (ea_def, ea_ref),
                       log_info ''Obtained EA definition with reference: %s'' [LJson ea_ref] w2)))))"

text \<open>\<^verbatim>\<open>sanitized_mapping.setdefault(sanitized, []).append(value)\<close> on a dict that keeps its
  keys in the order of their first insertion.\<close>

fun setdefault_append ::
  "(pystr \<times> pystr list) list \<Rightarrow> pystr \<Rightarrow> pystr \<Rightarrow> (pystr \<times> pystr list) list" where
  "setdefault_append [] k v = [(k, [v])]"
| "setdefault_append ((k', vs) # m) k v =
     (if k' = k then (k', vs @ [v]) # m else (k', vs) # setdefault_append m k v)"

text \<open>The body of the first loop of the updater, and the body of its second loop.\<close>

definition sanitize_step ::
  "(pystr \<times> pystr list) list \<times> world \<Rightarrow> pystr \<Rightarrow> (pystr \<times> pystr list) list \<times> world" where
  "sanitize_step mw v =
     (case mw of (m, w) \<Rightarrow>
        (case sanitize_value v w of (sanitized, w') \<Rightarrow> (setdefault_append m sanitized v, w')))"

definition log_duplicate :: "world \<Rightarrow> pystr \<times> pystr list \<Rightarrow> world" where
  "log_duplicate w item =
     (case item of (sanitized, originals) \<Rightarrow>
        if length originals > 1
        then log_warning ''Duplicate sanitized value '%s' from original values: %s''
               [LStr sanitized, LStrs originals] w
        else w)"

text \<open>The dict \<^verbatim>\<open>{"list_values": [{"value": value} for value in sanitized_values]}\<close>.\<close>

definition list_values_payload :: "pystr list \<Rightarrow> json" where
  "list_values_payload sanitized_values =
     JObj [(py ''list_values'', JArr (map (\<lambda>v. JObj [(py ''value'', JStr v)]) sanitized_values))]"

text \<open>The updater's call of \<^verbatim>\<open>requests.put\<close>; it passes no \<^verbatim>\<open>proxies\<close> either.\<close>

definition ea_put_call :: "config \<Rightarrow> json \<Rightarrow> json \<Rightarrow> http_request" where
  "ea_put_call cfg ea_ref payload =
     \<lparr>req_method = PUT, req_url = RefUrl (INFOBLOX_API_ENDPOINT cfg) ea_ref, req_params = [],
      req_auth = (INFOBLOX_API_USERNAME cfg, INFOBLOX_API_PASSWORD cfg),
      req_headers = [], req_json = Some payload, req_verify = VERIFY_SSL, req_timeout = 30,
      req_proxies = None\<rparr>"

definition update_infoblox_ea_values ::
  "config \<Rightarrow> remote \<Rightarrow> json \<Rightarrow> pystr list \<Rightarrow> world \<Rightarrow> (failure + unit) \<times> world" where
  "update_infoblox_ea_values cfg remote ea_ref new_values w0 =
     (case foldl sanitize_step ([], w0) new_values of (sanitized_mapping, w1) \<Rightarrow>
        (let w2 = foldl log_duplicate w1 sanitized_mapping;
             sanitized_values = sort (map fst sanitized_mapping);
             payload = list_values_payload sanitized_values;
             w3 = log_info ''Updating Infoblox EA values with payload: %s'' [LJson payload] w2
         in case requests_send remote (ea_put_call cfg ea_ref payload) w3 of
           (Raises e, w4) \<Rightarrow>
             (Inl (SysExit 1), log_error ''Exception during Infoblox EA update: %s'' [LStr e] w4)
         | (Responds response, w4) \<Rightarrow>
             if status_code response \<notin> {200, 201}
             then (Inl (SysExit 1),
                   log_error ''Infoblox EA update failed. Status: %s, Response: %s''
                     [LInt (status_code response), LStr (body_text response)] w4)
             else (Inr (), log_info ''Infoblox EA update successful.'' [] w4)))"

text \<open>The set comprehension of the fetcher, element by element: the names it collects, in
  the order of the rows, or the first exception.\<close>

fun location_names :: "json list \<Rightarrow> pyexc + pystr list" where
  "location_names [] = Inr []"
| "location_names (item # results) =
     (case str_in (py ''name'') item of
        Inl x \<Rightarrow> Inl x
      | Inr False \<Rightarrow> location_names results
      | Inr True \<Rightarrow>
          (case getitem_str item (py ''name'') of
             Inl x \<Rightarrow> Inl x
           | Inr v \<Rightarrow>
               if truthy v
               then (case py_strip v of
                       Inl x \<Rightarrow> Inl x
                     | Inr name \<Rightarrow>
                         (case location_names results of
                            Inl x \<Rightarrow> Inl x
                          | Inr names \<Rightarrow> Inr (name # names)))
               else location_names results))"

text \<open>
  The fetcher's call of \<^verbatim>\<open>requests.get\<close>. Its \<^verbatim>\<open>proxies\<close> is the dict for both schemes
  when \<^verbatim>\<open>SERVICENOW_PROXY\<close> is configured and not empty, and \<^verbatim>\<open>None\<close> otherwise.
\<close>

definition snow_get_call :: "config \<Rightarrow> http_request" where
  "snow_get_call cfg =
     \<lparr>req_method = GET,
      req_url = Url (SNOW_INSTANCE_URL cfg @ SNOW_CMN_LOCATION_ENDPOINT cfg),
      req_params = [],
      req_auth = (SERVICENOW_API_USERNAME cfg, SERVICENOW_API_TOKEN cfg),
      req_headers = [(py ''Content-Type'', py ''application/json''),
                     (py ''Accept'', py ''application/json'')],
      req_json = None, req_verify = VERIFY_SSL, req_timeout = 30,
      req_proxies =
        (case SERVICENOW_PROXY cfg of
           None \<Rightarrow> None
         | Some servicenow_proxy \<Rightarrow>
             if servicenow_proxy \<noteq> []
             then Some [(py ''http'', servicenow_proxy), (py ''https'', servicenow_proxy)]
             else None)\<rparr>"

definition get_snow_locations ::
  "config \<Rightarrow> remote \<Rightarrow> world \<Rightarrow> (failure + pystr set) \<times> world" where
  "get_snow_locations cfg remote w0 =
     (let url = req_url (snow_get_call cfg);
          w1 = (case SERVICENOW_PROXY cfg of
                  None \<Rightarrow>
                    log_info ''No proxy defined for ServiceNow connection, connecting directly.'' [] w0
                | Some servicenow_proxy \<Rightarrow>
                    if servicenow_proxy \<noteq> []
                    then log_info ''Using proxy for ServiceNow connection: %s'' [LStr servicenow_proxy] w0
                    else log_info ''No proxy defined for ServiceNow connection, connecting directly.'' [] w0);
          w2 = log_info ''Fetching locations from ServiceNow: %s'' [LUrl url] w1
      in case requests_send remote (snow_get_call cfg) w2 of
           (Raises e, w3) \<Rightarrow>
             (Inl (SysExit 1), log_error ''Exception during ServiceNow API request: %s'' [LStr e] w3)
         | (Responds response, w3) \<Rightarrow>
             if status_code response \<noteq> 200
             then (Inl (SysExit 1),
                   log_error ''ServiceNow API error. Status: %s, Response: %s''
                     [LInt (status_code response), LStr (body_text response)] w3)
             else (case body_json response of
               Inl e \<Rightarrow> (Inl (SysExit 1), log_error ''Error parsing ServiceNow JSON: %s'' [LStr e] w3)
             | Inr data \<Rightarrow>
                 (case dict_get data (py ''result'') (JArr []) of
                    Inl x \<Rightarrow> (Inl (Uncaught x), w3)
                  | Inr results \<Rightarrow>
                      (case py_iter results of
                         Inl x \<Rightarrow> (Inl (Uncaught x), w3)
                       | Inr items \<Rightarrow>
                           (case location_names items of
                              Inl x \<Rightarrow> (Inl (Uncaught x), w3)
                            | Inr names \<Rightarrow>
                                (let locations = set names
                                 in (Inr locations,
                                     log_info ''Fetched %d locations from ServiceNow.''
                                       [LInt (int (card locations))] w3)))))))"

text \<open>\<^verbatim>\<open>ea_def.get("list_values", [])\<close> and the set comprehension over it, as \<^verbatim>\<open>main\<close> has
  them before and after the update.\<close>

fun entry_values :: "json list \<Rightarrow> pyexc + json list" where
  "entry_values [] = Inr []"
| "entry_values (entry # current_list) =
     (case str_in (py ''value'') entry of
        Inl x \<Rightarrow> Inl x
      | Inr False \<Rightarrow> entry_values current_list
      | Inr True \<Rightarrow>
          (case getitem_str entry (py ''value'') of
             Inl x \<Rightarrow> Inl x
           | Inr v \<Rightarrow>
               (case set_key v of
                  Inl x \<Rightarrow> Inl x
                | Inr k \<Rightarrow>
                    (case entry_values current_list of
                       Inl x \<Rightarrow> Inl x
                     | Inr ks \<Rightarrow> Inr (k # ks)))))"

definition allowed_values :: "json \<Rightarrow> pyexc + json set" where
  "allowed_values ea_def =
     (case dict_get ea_def (py ''list_values'') (JArr []) of
        Inl x \<Rightarrow> Inl x
      | Inr current_list \<Rightarrow>
          (case py_iter current_list of
             Inl x \<Rightarrow> Inl x
           | Inr entries \<Rightarrow>
               (case entry_values entries of
                  Inl x \<Rightarrow> Inl x
                | Inr ks \<Rightarrow> Inr (set ks))))"

text \<open>
  \<^verbatim>\<open>sorted(snow_locations, key=lambda loc: tuple(loc.split("/")))\<close>: tuples of strings
  compare lexicographically. The set is enumerated in ascending order first; the key is
  injective, so the enumeration order of the set does not show in the result
  (\<open>sorted_locations_any_order\<close> below).
\<close>

definition main :: "config \<Rightarrow> remote \<Rightarrow> world \<Rightarrow> (failure + unit) \<times> world" where
  "main cfg remote w0 =
     (let w1 = log_info (''Starting ServiceNow -> Infoblox synchronization for EA '%s'' @ [CHR 0x27])
                 [LStr EXT_ATTR_NAME] w0
      in case get_snow_locations cfg remote w1 of
        (Inl f, w2) \<Rightarrow> (Inl f, w2)
      | (Inr snow_locations, w2) \<Rightarrow>
        (case get_infoblox_ea_definition cfg remote EXT_ATTR_NAME w2 of
          (Inl f, w3) \<Rightarrow> (Inl f, w3)
        | (Inr (ea_def, ea_ref), w3) \<Rightarrow>
          (case allowed_values ea_def of
            Inl x \<Rightarrow> (Inl (Uncaught x), w3)
          | Inr current_values \<Rightarrow>
            (let w4 = log_info ''Current Infoblox EA '%s' allowed values: %s''
                        [LStr EXT_ATTR_NAME, LSet current_values] w3;
                 new_values = sort_key split_slash (sorted_list_of_set snow_locations);
                 w5 = log_info ''ServiceNow provided %d allowed values: %s''
                        [LInt (int (length new_values)), LStrs new_values] w4
             in if py_eq (PyList new_values) (PySet current_values)
                then (Inr (),
                      log_info ''Synchronization completed successfully.'' []
                        (log_info ''No changes required. Infoblox EA allowed values are up-to-date.'' [] w5))
                else
                  (case update_infoblox_ea_values cfg remote ea_ref new_values
                          (log_info ''Updating Infoblox EA allowed values to match ServiceNow data.'' [] w5) of
                    (Inl f, w6) \<Rightarrow> (Inl f, w6)
                  | (Inr u, w6) \<Rightarrow>
                    (case get_infoblox_ea_definition cfg remote EXT_ATTR_NAME w6 of
                      (Inl f, w7) \<Rightarrow> (Inl f, w7)
                    | (Inr (ea_def_after, r), w7) \<Rightarrow>
                      (case allowed_values ea_def_after of
                        Inl x \<Rightarrow> (Inl (Uncaught x), w7)
                      | Inr updated_values \<Rightarrow>
                          (Inr (),
                           log_info ''Synchronization completed successfully.'' []
                             (log_info ''After update, Infoblox EA '%s' allowed values: %s''
                                [LStr EXT_ATTR_NAME, LSet updated_values] w7)))))))))"

section \<open>flush_all_location_values.py\<close>

text \<open>The module-level settings of the flush script: the endpoint without its trailing
  slashes, and the proxies, which every request of this script is given.\<close>

definition INFOBLOX_API_ENDPOINT_flush :: "config \<Rightarrow> pystr" where
  "INFOBLOX_API_ENDPOINT_flush cfg = rstrip_slash (INFOBLOX_API_ENDPOINT cfg)"

definition proxies_flush :: "config \<Rightarrow> (pystr \<times> pystr) list option" where
  "proxies_flush cfg =
     (case SERVICENOW_PROXY cfg of
        None \<Rightarrow> None
      | Some servicenow_proxy \<Rightarrow>
          if servicenow_proxy \<noteq> []
          then Some [(py ''http'', servicenow_proxy), (py ''https'', servicenow_proxy)]
          else None)"

definition sanitize_value_flush :: "pystr \<Rightarrow> nat \<Rightarrow> world \<Rightarrow> pystr \<times> world" where
  "sanitize_value_flush v max_len w =
     (if length v > max_len
      then (take max_len v,
            log_warning ''Value '%s' exceeds %d chars, truncating.'' [LStr v, LInt (int max_len)] w)
      else (v, w))"

definition ea_get_call_flush :: "config \<Rightarrow> pystr \<Rightarrow> http_request" where
  "ea_get_call_flush cfg ea_name =
     \<lparr>req_method = GET,
      req_url = Url (INFOBLOX_API_ENDPOINT_flush cfg @ py ''/extensibleattributedef''),
      req_params = [(py ''name'', ea_name), (py ''_return_fields'', py ''list_values'')],
      req_auth = (INFOBLOX_API_USERNAME cfg, INFOBLOX_API_PASSWORD cfg),
      req_headers = [], req_json = None, req_verify = VERIFY_SSL, req_timeout = 30,
      req_proxies = proxies_flush cfg\<rparr>"

definition get_infoblox_ea_definition_flush ::
  "config \<Rightarrow> remote \<Rightarrow> pystr \<Rightarrow> world \<Rightarrow> (failure + json \<times> json) \<times> world" where
  "get_infoblox_ea_definition_flush cfg remote ea_name w0 =
     (let url = req_url (ea_get_call_flush cfg ea_name);
          w1 = log_info ''GET EA definition '%s' -> %s'' [LStr ea_name, LUrl url] w0
      in case requests_send remote (ea_get_call_flush cfg ea_name) w1 of
        (Raises e, w2) \<Rightarrow> (Inl (SysExit 1), log_error ''Error fetching EA definition: %s'' [LStr e] w2)
      | (Responds resp, w2) \<Rightarrow>
          if status_code resp \<noteq> 200
          then (Inl (SysExit 1),
                log_error ''GET EA failed (%s): %s'' [LInt (status_code resp), LStr (body_text resp)] w2)
          else (case body_json resp of
            Inl e \<Rightarrow> (Inl (SysExit 1), log_error ''Invalid JSON from Infoblox: %s'' [LStr e] w2)
          | Inr data \<Rightarrow>
              if \<not> truthy data
              then (Inl (SysExit 1), log_error ''EA '%s' not found.'' [LStr ea_name] w2)
              else (case getitem0 data of
                Inl x \<Rightarrow> (Inl (Uncaught x), w2)
              | Inr ea_def \<Rightarrow>
                  (case dict_get ea_def (py ''_ref'') JNull of
                    Inl x \<Rightarrow> (Inl (Uncaught x), w2)
                  | Inr ea_ref \<Rightarrow>
                      (case dict_get ea_def (py ''list_values'') (JArr []) of
                        Inl x \<Rightarrow> (Inl (Uncaught x), w2)
                      | Inr list_values \<Rightarrow>
                          (case py_len list_values of
                            Inl x \<Rightarrow> (Inl (Uncaught x), w2)
                          | Inr n \<Rightarrow>
                              (Inr (ea_def, ea_ref),
                               log_info ''Found EA _ref=%s with %d values''
                                 [LJson ea_ref, LInt n] w2)))))))"

definition ea_put_call_flush :: "config \<Rightarrow> json \<Rightarrow> json \<Rightarrow> http_request" where
  "ea_put_call_flush cfg ea_ref payload =
     \<lparr>req_method = PUT, req_url = RefUrl (INFOBLOX_API_ENDPOINT_flush cfg) ea_ref,
      req_params = [],
      req_auth = (INFOBLOX_API_USERNAME cfg, INFOBLOX_API_PASSWORD cfg),
      req_headers = [], req_json = Some payload, req_verify = VERIFY_SSL, req_timeout = 30,
      req_proxies = proxies_flush cfg\<rparr>"

text \<open>The format string of the last record has the dash U+2014 of the source, written as
  its three bytes in UTF-8.\<close>

definition update_infoblox_ea_values_flush ::
  "config \<Rightarrow> remote \<Rightarrow> json \<Rightarrow> world \<Rightarrow> (failure + unit) \<times> world" where
  "update_infoblox_ea_values_flush cfg remote ea_ref w0 =
     (let payload = JObj [(py ''list_values'', JArr [JObj [(py ''value'', JStr (py ''CLEARED''))]])];
          url = req_url (ea_put_call_flush cfg ea_ref payload);
          w1 = log_info ''PUT flush EA at %s  payload=%s'' [LUrl url, LJson payload] w0
      in case requests_send remote (ea_put_call_flush cfg ea_ref payload) w1 of
        (Raises e, w2) \<Rightarrow> (Inl (SysExit 1), log_error ''Error flushing EA values: %s'' [LStr e] w2)
      | (Responds resp, w2) \<Rightarrow>
          if status_code resp \<notin> {200, 201}
          then (Inl (SysExit 1),
                log_error ''Flush failed (%s): %s'' [LInt (status_code resp), LStr (body_text resp)] w2)
          else (Inr (),
                log_info (''Flush successful'' @ [CHR 0xE2, CHR 0x80, CHR 0x94]
                          @ ''EA now has zero allowed values.'') [] w2))"

text \<open>The script from its proxy setup on: the log line of the setup, then the block under
  \<^verbatim>\<open>if __name__ == "__main__"\<close>. What it prints on the console is left out.\<close>

definition flush_all_location_values :: "config \<Rightarrow> remote \<Rightarrow> world \<Rightarrow> (failure + unit) \<times> world" where
  "flush_all_location_values cfg remote w0 =
     (let w1 = (case SERVICENOW_PROXY cfg of
                  None \<Rightarrow>
                    log_info ''No proxy defined for Infoblox connection, connecting directly.'' [] w0
                | Some servicenow_proxy \<Rightarrow>
                    if servicenow_proxy \<noteq> []
                    then log_info ''Using proxy for Infoblox connection: %s'' [LStr servicenow_proxy] w0
                    else log_info ''No proxy defined for Infoblox connection, connecting directly.'' [] w0);
          w2 = log_info (''Starting one-time flush of EA '%s'' @ [CHR 0x27]) [LStr EXT_ATTR_NAME] w1
      in case get_infoblox_ea_definition_flush cfg remote EXT_ATTR_NAME w2 of
        (Inl f, w3) \<Rightarrow> (Inl f, w3)
      | (Inr (ea_def, ea_ref), w3) \<Rightarrow> update_infoblox_ea_values_flush cfg remote ea_ref w3)"

section \<open>Inputs for the examples\<close>

text \<open>A run starts with nothing requested and nothing logged. The example configuration
  has a proxy; the example remote answers every request with status 200 and an empty
  JSON array.\<close>

definition empty_world :: world where
  "empty_world = \<lparr>trace = [], logged = []\<rparr>"

definition example_config :: config where
  "example_config =
     \<lparr>INFOBLOX_API_ENDPOINT = py ''https://infoblox.example/wapi/v2.12'',
      INFOBLOX_API_USERNAME = py ''admin'',
      INFOBLOX_API_PASSWORD = py ''secret'',
      SERVICENOW_API_USERNAME = py ''sync'',
      SERVICENOW_API_TOKEN = py ''token'',
      SERVICENOW_API_ENDPOINT = py ''example.service-now.com'',
      SERVICE_NOW_API_LIMIT = py ''1000'',
      SERVICENOW_PROXY = Some (py ''http://proxy.example:3128'')\<rparr>"

definition accepting_remote :: remote where
  "accepting_remote history req =
     Responds \<lparr>status_code = 200, body_text = [], body_json = Inr (JArr [])\<rparr>"

text \<open>
  Further remotes: one that answers with two attribute definitions, one that answers every
  request with status 500 and a body that is not JSON, and one whose two systems agree: the
  ITSM lists the two locations that are the attribute's allowed values already, and every
  update is accepted.
\<close>

definition first_definition :: json where
  "first_definition =
     JObj [(py ''_ref'', JStr (py ''extensibleattributedef/b25l:Location'')),
           (py ''list_values'', JArr [JObj [(py ''value'', JStr (py ''US/NYC/HQ''))]])]"

definition second_definition :: json where
  "second_definition =
     JObj [(py ''_ref'', JStr (py ''extensibleattributedef/b25m:Location'')),
           (py ''list_values'', JArr [])]"

definition two_definitions_remote :: remote where
  "two_definitions_remote history req =
     Responds \<lparr>status_code = 200, body_text = [],
               body_json = Inr (JArr [first_definition, second_definition])\<rparr>"

definition failing_remote :: remote where
  "failing_remote history req =
     Responds \<lparr>status_code = 500, body_text = py ''Internal Server Error'',
               body_json = Inl (py ''Expecting value'')\<rparr>"

definition in_sync_definition :: json where
  "in_sync_definition =
     JObj [(py ''_ref'', JStr (py ''extensibleattributedef/b25l:Location'')),
           (py ''list_values'', JArr [JObj [(py ''value'', JStr (py ''US/LA/West''))],
                                     JObj [(py ''value'', JStr (py ''US/NYC/HQ''))]])]"

definition in_sync_remote :: remote where
  "in_sync_remote history req =
     (if req_method req = PUT
      then Responds \<lparr>status_code = 200, body_text = [], body_json = Inr JNull\<rparr>
      else if req_auth req = (py ''sync'', py ''token'')
      then Responds \<lparr>status_code = 200, body_text = [],
             body_json = Inr (JObj [(py ''result'',
               JArr [JObj [(py ''name'', JStr (py ''US/NYC/HQ''))],
                     JObj [(py ''name'', JStr (py ''US/LA/West''))]])])\<rparr>
      else Responds \<lparr>status_code = 200, body_text = [], body_json = Inr (JArr [in_sync_definition])\<rparr>)"

section \<open>The sanitizer\<close>

text \<open>
  C2. Sanitization returns a string of at most 64 characters unchanged, and of a longer
  string exactly its first 64 characters, a string of length 64. This holds for
  \<open>sanitize_value\<close> of the importer and for \<open>sanitize_value\<close> of the flush script at its
  default bound.
\<close>

theorem sanitize_value_spec:
  "(length v \<le> 64 \<longrightarrow>
      fst (sanitize_value v w) = v \<and> fst (sanitize_value_flush v 64 w) = v) \<and>
   (64 < length v \<longrightarrow>
      fst (sanitize_value v w) = take 64 v \<and> length (fst (sanitize_value v w)) = 64 \<and>
      fst (sanitize_value_flush v 64 w) = take 64 v \<and>
      length (fst (sanitize_value_flush v 64 w)) = 64)"
  by (simp add: sanitize_value_def sanitize_value_flush_def ENUM_MAX_LENGTH_def)

theorem sanitize_value_spec_witness:
  "fst (sanitize_value (py ''US/NYC/HQ'') empty_world) = py ''US/NYC/HQ'' \<and>
   fst (sanitize_value_flush (py ''US/NYC/HQ'') 64 empty_world) = py ''US/NYC/HQ'' \<and>
   fst (sanitize_value (replicate 70 97) empty_world) = replicate 64 97 \<and>
   length (fst (sanitize_value (replicate 70 97) empty_world)) = 64 \<and>
   fst (sanitize_value_flush (replicate 70 97) 64 empty_world) = replicate 64 97 \<and>
   length (fst (sanitize_value_flush (replicate 70 97) 64 empty_world)) = 64"
  using sanitize_value_spec [of "py ''US/NYC/HQ''" empty_world]
    sanitize_value_spec [of "replicate 70 97" empty_world]
  by (simp add: py_def)

text \<open>The value does not depend on the length test: a short string is its own prefix.\<close>

lemma fst_sanitize_value: "fst (sanitize_value v w) = take ENUM_MAX_LENGTH v"
  by (simp add: sanitize_value_def)

lemma trace_sanitize_value: "trace (snd (sanitize_value v w)) = trace w"
  by (simp add: sanitize_value_def log_warning_def)

lemma logged_sanitize_value: "\<exists>l. logged (snd (sanitize_value v w)) = logged w @ l"
  by (simp add: sanitize_value_def log_warning_def)

lemma fst_foldl_sanitize_step:
  "fst (foldl sanitize_step (m, w) vs) =
     foldl (\<lambda>m v. setdefault_append m (take ENUM_MAX_LENGTH v) v) m vs"
proof (induction vs arbitrary: m w)
  case Nil
  show ?case by simp
next
  case (Cons v vs)
  obtain s w' where sv: "sanitize_value v w = (s, w')" by (cases "sanitize_value v w")
  with fst_sanitize_value [of v w] have "s = take ENUM_MAX_LENGTH v" by simp
  with sv Cons.IH [of "setdefault_append m s v" w'] show ?case
    by (simp add: sanitize_step_def)
qed

lemma trace_foldl_sanitize_step: "trace (snd (foldl sanitize_step (m, w) vs)) = trace w"
proof (induction vs arbitrary: m w)
  case Nil
  show ?case by simp
next
  case (Cons v vs)
  obtain s w' where sv: "sanitize_value v w = (s, w')" by (cases "sanitize_value v w")
  with trace_sanitize_value [of v w] have "trace w' = trace w" by simp
  with sv Cons.IH [of "setdefault_append m s v" w'] show ?case
    by (simp add: sanitize_step_def)
qed

lemma logged_foldl_sanitize_step:
  "\<exists>l. logged (snd (foldl sanitize_step (m, w) vs)) = logged w @ l"
proof (induction vs arbitrary: m w)
  case Nil
  show ?case by simp
next
  case (Cons v vs)
  obtain s w' where sv: "sanitize_value v w = (s, w')" by (cases "sanitize_value v w")
  then have step: "sanitize_step (m, w) v = (setdefault_append m s v, w')"
    by (simp add: sanitize_step_def)
  from sv logged_sanitize_value [of v w] obtain l1 where l1: "logged w' = logged w @ l1" by auto
  from Cons.IH [of "setdefault_append m s v" w'] obtain l2
    where "logged (snd (foldl sanitize_step (setdefault_append m s v, w') vs)) = logged w' @ l2"
    by blast
  with l1 show ?case by (simp add: step)
qed

section \<open>The updater of the importer\<close>

lemma keys_setdefault_append:
  "map fst (setdefault_append m k v) = (if k \<in> set (map fst m) then map fst m else map fst m @ [k])"
  by (induction m k v rule: setdefault_append.induct) auto

lemma map_of_setdefault_append:
  "map_of (setdefault_append m k v) =
     (map_of m)(k \<mapsto> (case map_of m k of None \<Rightarrow> [v] | Some vs \<Rightarrow> vs @ [v]))"
  by (induction m k v rule: setdefault_append.induct) (auto simp: fun_eq_iff)

lemma keys_set_setdefault_append:
  "fst ` set (setdefault_append m k v) = insert k (fst ` set m)"
  by (induction m k v rule: setdefault_append.induct) auto

lemma keys_foldl_setdefault:
  "fst ` set (foldl (\<lambda>m v. setdefault_append m (f v) v) m vs) = fst ` set m \<union> f ` set vs"
  by (induction vs arbitrary: m) (simp_all add: keys_set_setdefault_append)

lemma distinct_foldl_setdefault:
  "distinct (map fst m) \<Longrightarrow> distinct (map fst (foldl (\<lambda>m v. setdefault_append m (f v) v) m vs))"
  by (induction vs arbitrary: m) (auto simp: keys_setdefault_append)

lemma map_of_foldl_setdefault:
  "map_of (foldl (\<lambda>m v. setdefault_append m (f v) v) m vs) s =
     (case map_of m s of
        None \<Rightarrow> if filter (\<lambda>v. f v = s) vs = [] then None else Some (filter (\<lambda>v. f v = s) vs)
      | Some os \<Rightarrow> Some (os @ filter (\<lambda>v. f v = s) vs))"
  by (induction vs arbitrary: m) (auto simp: map_of_setdefault_append split: option.splits)

lemma trace_foldl_log_duplicate: "trace (foldl log_duplicate w m) = trace w"
  by (induction m arbitrary: w) (auto simp: log_duplicate_def log_warning_def)

lemma logged_foldl_log_duplicate:
  "logged (foldl log_duplicate w m) =
     logged w @ map (\<lambda>(s, os). (WARNING, ''Duplicate sanitized value '%s' from original values: %s'', [LStr s, LStrs os]))
                  (filter (\<lambda>(s, os). length os > 1) m)"
  by (induction m arbitrary: w) (auto simp: log_duplicate_def log_warning_def)

lemma ea_put_call_fields [simp]:
  "req_method (ea_put_call cfg ea_ref payload) = PUT"
  "req_json (ea_put_call cfg ea_ref payload) = Some payload"
  "req_proxies (ea_put_call cfg ea_ref payload) = None"
  by (simp_all add: ea_put_call_def)

lemma sanitized_values_eq:
  "sort (map fst (fst (foldl sanitize_step ([], w) vs))) =
     sorted_list_of_set (take ENUM_MAX_LENGTH ` set vs)"
proof -
  let ?m = "foldl (\<lambda>m v. setdefault_append m (take ENUM_MAX_LENGTH v) v) [] vs"
  have d: "distinct (map fst ?m)" by (rule distinct_foldl_setdefault) simp
  have s: "set (map fst ?m) = take ENUM_MAX_LENGTH ` set vs"
    using keys_foldl_setdefault [of "take ENUM_MAX_LENGTH" "[]" vs] by simp
  have "sort (map fst ?m) = sorted_list_of_set (set (map fst ?m))"
    using d by (simp add: sorted_list_of_set_sort_remdups distinct_remdups_id del: set_map)
  with s show ?thesis by (simp only: fst_foldl_sanitize_step)
qed

lemma update_trace:
  "trace (snd (update_infoblox_ea_values cfg remote ea_ref new_values w)) =
     trace w @
     [ea_put_call cfg ea_ref
        (list_values_payload (sorted_list_of_set (take ENUM_MAX_LENGTH ` set new_values)))]"
proof -
  obtain m w1 where f: "foldl sanitize_step ([], w) new_values = (m, w1)"
    by (cases "foldl sanitize_step ([], w) new_values")
  have t: "trace w1 = trace w" using trace_foldl_sanitize_step [of "[]" w new_values] f by simp
  have k: "sort (map fst m) = sorted_list_of_set (take ENUM_MAX_LENGTH ` set new_values)"
    using sanitized_values_eq [of w new_values] f by simp
  show ?thesis
    unfolding update_infoblox_ea_values_def Let_def f
    by (simp add: k t requests_send_def log_info_def log_error_def trace_foldl_log_duplicate
        split: outcome.splits)
qed

lemma update_logged:
  "\<exists>l. logged (snd (update_infoblox_ea_values cfg remote ea_ref new_values w)) =
     logged (foldl log_duplicate (snd (foldl sanitize_step ([], w) new_values))
               (fst (foldl sanitize_step ([], w) new_values))) @ l"
proof -
  obtain m w1 where f: "foldl sanitize_step ([], w) new_values = (m, w1)"
    by (cases "foldl sanitize_step ([], w) new_values")
  show ?thesis
    unfolding update_infoblox_ea_values_def Let_def f
    by (simp add: requests_send_def log_info_def log_error_def split: outcome.splits)
qed

text \<open>
  C4. Whatever the raw values, the updater issues one request, a PUT whose JSON body is
  the dict with \<^verbatim>\<open>list_values\<close> the list of the dicts \<^verbatim>\<open>{"value": v}\<close>, for v running
  through the sanitized values of the input in ascending lexicographic order.
\<close>

theorem update_payload_sorted:
  "\<exists>r vs. trace (snd (update_infoblox_ea_values cfg remote ea_ref new_values w)) = trace w @ [r]
     \<and> req_method r = PUT
     \<and> req_json r = Some (JObj [(py ''list_values'',
                                 JArr (map (\<lambda>v. JObj [(py ''value'', JStr v)]) vs))])
     \<and> set vs = (\<lambda>v. fst (sanitize_value v w)) ` set new_values
     \<and> sorted vs"
proof -
  let ?vs = "sorted_list_of_set (take ENUM_MAX_LENGTH ` set new_values)"
  have "set ?vs = (\<lambda>v. fst (sanitize_value v w)) ` set new_values" and "sorted ?vs"
    by (simp_all add: fst_sanitize_value)
  moreover have "req_json (ea_put_call cfg ea_ref (list_values_payload ?vs)) =
      Some (JObj [(py ''list_values'',
                   JArr (map (\<lambda>v. JObj [(py ''value'', JStr v)]) ?vs))])"
    by (simp add: list_values_payload_def)
  ultimately show ?thesis
    using update_trace [of cfg remote ea_ref new_values w]
    by (intro exI [of _ "ea_put_call cfg ea_ref (list_values_payload ?vs)"] exI [of _ ?vs]) simp
qed

lemma update_same_sanitized_set:
  assumes "take ENUM_MAX_LENGTH ` set xs = take ENUM_MAX_LENGTH ` set ys"
  shows "\<exists>r. trace (snd (update_infoblox_ea_values cfg remote ea_ref xs w)) = trace w @ [r]
     \<and> trace (snd (update_infoblox_ea_values cfg remote' ea_ref ys w')) = trace w' @ [r]"
  by (simp add: update_trace assms)

text \<open>
  C9. Two collections of raw values with the same set of elements (in any order, with any
  repetition) make the updater issue the same request, so the same payload: the payload
  lists the set of the sanitized values in ascending order.
\<close>

theorem update_payload_set_only:
  assumes "set xs = set ys"
  shows "\<exists>r. trace (snd (update_infoblox_ea_values cfg remote ea_ref xs w)) = trace w @ [r]
     \<and> trace (snd (update_infoblox_ea_values cfg remote' ea_ref ys w')) = trace w' @ [r]
     \<and> req_json r =
         Some (list_values_payload
                 (sorted_list_of_set ((\<lambda>v. fst (sanitize_value v w)) ` set xs)))"
  using assms by (simp add: update_trace fst_sanitize_value)

theorem update_payload_set_only_witness:
  "\<exists>r. trace (snd (update_infoblox_ea_values example_config accepting_remote JNull
            [py ''US/NYC/HQ'', py ''US/LA/West'', py ''US/NYC/HQ''] empty_world)) = [r]
     \<and> trace (snd (update_infoblox_ea_values example_config accepting_remote JNull
            [py ''US/LA/West'', py ''US/NYC/HQ''] empty_world)) = [r]
     \<and> req_json r = Some (list_values_payload [py ''US/LA/West'', py ''US/NYC/HQ''])"
proof -
  have s: "set [py ''US/NYC/HQ'', py ''US/LA/West'', py ''US/NYC/HQ'']
         = set [py ''US/LA/West'', py ''US/NYC/HQ'']"
    by auto
  have e: "sorted_list_of_set ((\<lambda>v. fst (sanitize_value v empty_world)) `
              set [py ''US/NYC/HQ'', py ''US/LA/West'', py ''US/NYC/HQ''])
         = [py ''US/LA/West'', py ''US/NYC/HQ'']"
  proof -
    let ?xs = "[py ''US/NYC/HQ'', py ''US/LA/West'', py ''US/NYC/HQ'']"
    have i: "(\<lambda>v. fst (sanitize_value v empty_world)) ` set ?xs
          = set (map (take ENUM_MAX_LENGTH) ?xs)"
      by (simp only: set_map fst_sanitize_value)
    have "sort (remdups (map (take ENUM_MAX_LENGTH) ?xs)) = [py ''US/LA/West'', py ''US/NYC/HQ'']"
      by (simp add: ENUM_MAX_LENGTH_def py_def)
    then show ?thesis
      by (simp only: i sorted_list_of_set_sort_remdups)
  qed
  have t: "trace empty_world = []" by (simp add: empty_world_def)
  from update_payload_set_only [OF s, of example_config accepting_remote JNull empty_world
        accepting_remote empty_world]
  show ?thesis by (simp only: e t append_Nil)
qed

lemma count_list_distinct: "distinct xs \<Longrightarrow> x \<in> set xs \<Longrightarrow> count_list xs x = 1"
  by (induction xs) auto

lemma two_elements_length: "a \<in> set xs \<Longrightarrow> b \<in> set xs \<Longrightarrow> a \<noteq> b \<Longrightarrow> 1 < length xs"
  by (cases xs; cases "tl xs") auto

lemma duplicate_logged:
  assumes "v1 \<in> set new_values" and "v2 \<in> set new_values" and "v1 \<noteq> v2"
    and "take ENUM_MAX_LENGTH v1 = s" and "take ENUM_MAX_LENGTH v2 = s"
  shows "(WARNING, ''Duplicate sanitized value '%s' from original values: %s'',
          [LStr s, LStrs (filter (\<lambda>v. take ENUM_MAX_LENGTH v = s) new_values)])
         \<in> set (logged (foldl log_duplicate (snd (foldl sanitize_step ([], w) new_values))
                     (fst (foldl sanitize_step ([], w) new_values))))"
proof -
  let ?os = "filter (\<lambda>v. take ENUM_MAX_LENGTH v = s) new_values"
  let ?m = "foldl (\<lambda>m v. setdefault_append m (take ENUM_MAX_LENGTH v) v) [] new_values"
  from assms have in_os: "v1 \<in> set ?os" "v2 \<in> set ?os" by simp_all
  from in_os assms(3) have len: "1 < length ?os" by (rule two_elements_length)
  then have ne: "?os \<noteq> []" by fastforce
  have "map_of ?m s = Some ?os"
    using ne by (simp add: map_of_foldl_setdefault)
  then have "(s, ?os) \<in> set ?m" by (rule map_of_SomeD)
  with len have "(s, ?os) \<in> set (filter (\<lambda>(s, os). 1 < length os) ?m)" by simp
  then show ?thesis
    by (simp only: fst_foldl_sanitize_step logged_foldl_log_duplicate) force
qed

text \<open>
  C3. When two distinct raw values of the input sanitize to the same string, the JSON
  body of the request the updater issues is the dict with \<^verbatim>\<open>list_values\<close> the list of the
  dicts \<^verbatim>\<open>{"value": v}\<close> for v in a list where that string occurs exactly once, and the
  log of the run holds the warning for it, whose arguments are the sanitized string and
  the list of all the raw values of the input that sanitize to it.
\<close>

theorem update_deduplicates:
  assumes "v1 \<in> set new_values" and "v2 \<in> set new_values" and "v1 \<noteq> v2"
    and "fst (sanitize_value v1 w) = s" and "fst (sanitize_value v2 w) = s"
  shows "\<exists>r vs. trace (snd (update_infoblox_ea_values cfg remote ea_ref new_values w)) = trace w @ [r]
     \<and> req_method r = PUT
     \<and> req_json r = Some (JObj [(py ''list_values'',
                                 JArr (map (\<lambda>v. JObj [(py ''value'', JStr v)]) vs))])
     \<and> count_list vs s = 1
     \<and> (WARNING, ''Duplicate sanitized value '%s' from original values: %s'',
          [LStr s, LStrs (filter (\<lambda>v. fst (sanitize_value v w) = s) new_values)])
        \<in> set (logged (snd (update_infoblox_ea_values cfg remote ea_ref new_values w)))"
proof -
  let ?vs = "sorted_list_of_set (take ENUM_MAX_LENGTH ` set new_values)"
  from assms have s: "take ENUM_MAX_LENGTH v1 = s" "take ENUM_MAX_LENGTH v2 = s"
    by (simp_all add: fst_sanitize_value)
  with assms(1) have "s \<in> set ?vs" by auto
  then have c: "count_list ?vs s = 1" by (simp add: count_list_distinct)
  from update_logged [of cfg remote ea_ref new_values w] obtain l where
    "logged (snd (update_infoblox_ea_values cfg remote ea_ref new_values w)) =
       logged (foldl log_duplicate (snd (foldl sanitize_step ([], w) new_values))
                 (fst (foldl sanitize_step ([], w) new_values))) @ l"
    by blast
  with duplicate_logged [OF assms(1-3) s, of w]
  have "(WARNING, ''Duplicate sanitized value '%s' from original values: %s'',
          [LStr s, LStrs (filter (\<lambda>v. take ENUM_MAX_LENGTH v = s) new_values)])
        \<in> set (logged (snd (update_infoblox_ea_values cfg remote ea_ref new_values w)))"
    by simp
  with c update_trace [of cfg remote ea_ref new_values w] show ?thesis
    by (intro exI [of _ "ea_put_call cfg ea_ref (list_values_payload ?vs)"] exI [of _ ?vs])
       (simp add: fst_sanitize_value list_values_payload_def)
qed

theorem update_deduplicates_witness:
  "\<exists>r vs. trace (snd (update_infoblox_ea_values example_config accepting_remote JNull
               [replicate 64 97 @ py ''1'', py ''US/LA/West'', replicate 64 97 @ py ''2'']
               empty_world)) = [r]
     \<and> req_method r = PUT
     \<and> req_json r = Some (JObj [(py ''list_values'',
                                 JArr (map (\<lambda>v. JObj [(py ''value'', JStr v)]) vs))])
     \<and> count_list vs (replicate 64 97) = 1
     \<and> (WARNING, ''Duplicate sanitized value '%s' from original values: %s'',
          [LStr (replicate 64 97), LStrs [replicate 64 97 @ py ''1'', replicate 64 97 @ py ''2'']])
        \<in> set (logged (snd (update_infoblox_ea_values example_config accepting_remote JNull
               [replicate 64 97 @ py ''1'', py ''US/LA/West'', replicate 64 97 @ py ''2'']
               empty_world)))"
proof -
  let ?a = "replicate 64 97 @ py ''1''" and ?b = "py ''US/LA/West''"
    and ?c = "replicate 64 97 @ py ''2''"
  have m: "?a \<in> set [?a, ?b, ?c]" "?c \<in> set [?a, ?b, ?c]" by simp_all
  have d: "?a \<noteq> ?c" by (simp add: py_def)
  have sa: "fst (sanitize_value ?a empty_world) = replicate 64 97"
    and sc: "fst (sanitize_value ?c empty_world) = replicate 64 97"
    by (simp_all add: fst_sanitize_value ENUM_MAX_LENGTH_def)
  have sb: "fst (sanitize_value ?b empty_world) \<noteq> replicate 64 97"
  proof
    assume "fst (sanitize_value ?b empty_world) = replicate 64 97"
    then have "length (fst (sanitize_value ?b empty_world)) = length (replicate 64 (97::nat))"
      by (rule arg_cong)
    then show False by (simp add: fst_sanitize_value ENUM_MAX_LENGTH_def py_def)
  qed
  have f: "filter (\<lambda>v. fst (sanitize_value v empty_world) = replicate 64 97) [?a, ?b, ?c] = [?a, ?c]"
    using sa sc sb by simp
  have t: "trace empty_world = []" by (simp add: empty_world_def)
  from update_deduplicates [OF m d sa sc, of example_config accepting_remote JNull]
  show ?thesis by (simp only: f t append_Nil)
qed

section \<open>Requests and results of the readers, the fetcher and the updaters\<close>

lemma trace_log [simp]:
  "trace (log_info fmt args w) = trace w"
  "trace (log_warning fmt args w) = trace w"
  "trace (log_error fmt args w) = trace w"
  by (simp_all add: log_info_def log_warning_def log_error_def)

lemma requests_send_simps [simp]:
  "fst (requests_send remote req w) = remote (trace w) req"
  "trace (snd (requests_send remote req w)) = trace w @ [req]"
  by (simp_all add: requests_send_def)

lemma requests_sendD:
  "requests_send remote req w = (out, w') \<Longrightarrow> out = remote (trace w) req \<and> trace w' = trace w @ [req]"
  by (auto simp: requests_send_def)

lemma reader_trace:
  "trace (snd (get_infoblox_ea_definition cfg remote ea_name w)) = trace w @ [ea_get_call cfg ea_name]"
  unfolding get_infoblox_ea_definition_def Let_def
  by (simp add: requests_send_def split: outcome.splits sum.splits)

lemma reader_result:
  "fst (get_infoblox_ea_definition cfg remote ea_name w) =
     (case remote (trace w) (ea_get_call cfg ea_name) of
        Raises e \<Rightarrow> Inl (SysExit 1)
      | Responds response \<Rightarrow>
          if status_code response \<noteq> 200 then Inl (SysExit 1)
          else (case body_json response of
            Inl e \<Rightarrow> Inl (SysExit 1)
          | Inr data \<Rightarrow>
              if \<not> truthy data then Inl (SysExit 1)
              else (case getitem0 data of
                Inl x \<Rightarrow> Inl (Uncaught x)
              | Inr ea_def \<Rightarrow>
                  (case dict_get ea_def (py ''_ref'') JNull of
                    Inl x \<Rightarrow> Inl (Uncaught x)
                  | Inr ea_ref \<Rightarrow> Inr (ea_def, ea_ref)))))"
  unfolding get_infoblox_ea_definition_def Let_def
  by (simp add: requests_send_def split: outcome.splits sum.splits)

lemma reader_trace_flush:
  "trace (snd (get_infoblox_ea_definition_flush cfg remote ea_name w)) =
     trace w @ [ea_get_call_flush cfg ea_name]"
  unfolding get_infoblox_ea_definition_flush_def Let_def
  by (simp add: requests_send_def split: outcome.splits sum.splits)

lemma reader_result_flush:
  "fst (get_infoblox_ea_definition_flush cfg remote ea_name w) =
     (case remote (trace w) (ea_get_call_flush cfg ea_name) of
        Raises e \<Rightarrow> Inl (SysExit 1)
      | Responds resp \<Rightarrow>
          if status_code resp \<noteq> 200 then Inl (SysExit 1)
          else (case body_json resp of
            Inl e \<Rightarrow> Inl (SysExit 1)
          | Inr data \<Rightarrow>
              if \<not> truthy data then Inl (SysExit 1)
              else (case getitem0 data of
                Inl x \<Rightarrow> Inl (Uncaught x)
              | Inr ea_def \<Rightarrow>
                  (case dict_get ea_def (py ''_ref'') JNull of
                    Inl x \<Rightarrow> Inl (Uncaught x)
                  | Inr ea_ref \<Rightarrow>
                      (case dict_get ea_def (py ''list_values'') (JArr []) of
                        Inl x \<Rightarrow> Inl (Uncaught x)
                      | Inr list_values \<Rightarrow>
                          (case py_len list_values of
                            Inl x \<Rightarrow> Inl (Uncaught x)
                          | Inr n \<Rightarrow> Inr (ea_def, ea_ref)))))))"
  unfolding get_infoblox_ea_definition_flush_def Let_def
  by (simp add: requests_send_def split: outcome.splits sum.splits)

lemma update_result:
  "fst (update_infoblox_ea_values cfg remote ea_ref new_values w) =
     (case remote (trace w)
             (ea_put_call cfg ea_ref
                (list_values_payload (sorted_list_of_set (take ENUM_MAX_LENGTH ` set new_values)))) of
        Raises e \<Rightarrow> Inl (SysExit 1)
      | Responds response \<Rightarrow>
          if status_code response \<notin> {200, 201} then Inl (SysExit 1) else Inr ())"
proof -
  obtain m w1 where f: "foldl sanitize_step ([], w) new_values = (m, w1)"
    by (cases "foldl sanitize_step ([], w) new_values")
  have t: "trace w1 = trace w" using trace_foldl_sanitize_step [of "[]" w new_values] f by simp
  have k: "sort (map fst m) = sorted_list_of_set (take ENUM_MAX_LENGTH ` set new_values)"
    using sanitized_values_eq [of w new_values] f by simp
  show ?thesis
    unfolding update_infoblox_ea_values_def Let_def f
    by (simp add: k t trace_foldl_log_duplicate requests_send_def split: outcome.splits)
qed

lemma update_trace_flush:
  "trace (snd (update_infoblox_ea_values_flush cfg remote ea_ref w)) =
     trace w @ [ea_put_call_flush cfg ea_ref
        (JObj [(py ''list_values'', JArr [JObj [(py ''value'', JStr (py ''CLEARED''))]])])]"
  unfolding update_infoblox_ea_values_flush_def Let_def
  by (simp add: requests_send_def split: outcome.splits)

lemma fetcher_trace:
  "trace (snd (get_snow_locations cfg remote w)) = trace w @ [snow_get_call cfg]"
  unfolding get_snow_locations_def Let_def
  by (simp add: requests_send_def split: outcome.splits sum.splits option.splits)

lemma fetcher_result:
  "fst (get_snow_locations cfg remote w) =
     (case remote (trace w) (snow_get_call cfg) of
        Raises e \<Rightarrow> Inl (SysExit 1)
      | Responds response \<Rightarrow>
          if status_code response \<noteq> 200 then Inl (SysExit 1)
          else (case body_json response of
            Inl e \<Rightarrow> Inl (SysExit 1)
          | Inr data \<Rightarrow>
              (case dict_get data (py ''result'') (JArr []) of
                 Inl x \<Rightarrow> Inl (Uncaught x)
               | Inr results \<Rightarrow>
                   (case py_iter results of
                      Inl x \<Rightarrow> Inl (Uncaught x)
                    | Inr items \<Rightarrow>
                        (case location_names items of
                           Inl x \<Rightarrow> Inl (Uncaught x)
                         | Inr names \<Rightarrow> Inr (set names))))))"
  unfolding get_snow_locations_def Let_def
  by (auto simp: requests_send_def split: outcome.splits sum.splits option.splits)

lemma ea_put_call_flush_fields [simp]:
  "req_method (ea_put_call_flush cfg ea_ref payload) = PUT"
  "req_json (ea_put_call_flush cfg ea_ref payload) = Some payload"
  "req_proxies (ea_put_call_flush cfg ea_ref payload) = proxies_flush cfg"
  by (simp_all add: ea_put_call_flush_def)

lemma ea_get_call_fields [simp]:
  "req_method (ea_get_call cfg ea_name) = GET"
  "req_json (ea_get_call cfg ea_name) = None"
  "req_proxies (ea_get_call cfg ea_name) = None"
  by (simp_all add: ea_get_call_def)

lemma ea_get_call_flush_fields [simp]:
  "req_method (ea_get_call_flush cfg ea_name) = GET"
  "req_json (ea_get_call_flush cfg ea_name) = None"
  "req_proxies (ea_get_call_flush cfg ea_name) = proxies_flush cfg"
  by (simp_all add: ea_get_call_flush_def)

lemma snow_get_call_fields [simp]:
  "req_method (snow_get_call cfg) = GET"
  "req_json (snow_get_call cfg) = None"
  by (simp_all add: snow_get_call_def)

lemma flush_script_trace:
  "trace (snd (flush_all_location_values cfg remote w)) =
     trace w @ [ea_get_call_flush cfg EXT_ATTR_NAME] \<or>
   (\<exists>ea_ref. trace (snd (flush_all_location_values cfg remote w)) =
     trace w @ [ea_get_call_flush cfg EXT_ATTR_NAME,
                ea_put_call_flush cfg ea_ref
                  (JObj [(py ''list_values'', JArr [JObj [(py ''value'', JStr (py ''CLEARED''))]])])])"
proof -
  let ?w2 = "log_info (''Starting one-time flush of EA '%s'' @ [CHR 0x27]) [LStr EXT_ATTR_NAME]
     (case SERVICENOW_PROXY cfg of
        None \<Rightarrow> log_info ''No proxy defined for Infoblox connection, connecting directly.'' [] w
      | Some servicenow_proxy \<Rightarrow>
          if servicenow_proxy \<noteq> []
          then log_info ''Using proxy for Infoblox connection: %s'' [LStr servicenow_proxy] w
          else log_info ''No proxy defined for Infoblox connection, connecting directly.'' [] w)"
  have t2: "trace ?w2 = trace w" by (simp split: option.splits)
  obtain res w3 where g: "get_infoblox_ea_definition_flush cfg remote EXT_ATTR_NAME ?w2 = (res, w3)"
    by (cases "get_infoblox_ea_definition_flush cfg remote EXT_ATTR_NAME ?w2")
  with reader_trace_flush [of cfg remote EXT_ATTR_NAME ?w2] t2
  have t3: "trace w3 = trace w @ [ea_get_call_flush cfg EXT_ATTR_NAME]" by simp
  show ?thesis
  proof (cases res)
    case (Inl f)
    with g t3 show ?thesis by (simp add: flush_all_location_values_def Let_def)
  next
    case (Inr p)
    obtain ea_def ea_ref where "p = (ea_def, ea_ref)" by (cases p)
    with Inr g t3 update_trace_flush [of cfg remote ea_ref w3] show ?thesis
      by (auto simp add: flush_all_location_values_def Let_def)
  qed
qed

section \<open>The flush workflow\<close>

text \<open>
  C5. The update operation of the flush workflow issues one request, a PUT whose payload
  is the dict with \<^verbatim>\<open>list_values\<close> the one-element list holding the value \<^verbatim>\<open>"CLEARED"\<close>,
  whatever the reference, the remote side and the state of the run; nothing is sanitized
  or sorted on the way. The whole script issues the reader's GET and then at most this
  one PUT.
\<close>

theorem flush_submits_cleared:
  "(\<exists>r. trace (snd (update_infoblox_ea_values_flush cfg remote ea_ref w)) = trace w @ [r]
      \<and> req_method r = PUT
      \<and> req_json r =
          Some (JObj [(py ''list_values'', JArr [JObj [(py ''value'', JStr (py ''CLEARED''))]])]))
   \<and> ((\<exists>g. trace (snd (flush_all_location_values cfg remote w)) = trace w @ [g]
          \<and> req_method g = GET)
      \<or> (\<exists>g r. trace (snd (flush_all_location_values cfg remote w)) = trace w @ [g, r]
          \<and> req_method g = GET \<and> req_method r = PUT
          \<and> req_json r =
              Some (JObj [(py ''list_values'', JArr [JObj [(py ''value'', JStr (py ''CLEARED''))]])])))"
proof -
  have "\<exists>r. trace (snd (update_infoblox_ea_values_flush cfg remote ea_ref w)) = trace w @ [r]
      \<and> req_method r = PUT
      \<and> req_json r =
          Some (JObj [(py ''list_values'', JArr [JObj [(py ''value'', JStr (py ''CLEARED''))]])])"
    by (simp add: update_trace_flush)
  moreover
  from flush_script_trace [of cfg remote w]
  have "(\<exists>g. trace (snd (flush_all_location_values cfg remote w)) = trace w @ [g]
          \<and> req_method g = GET)
      \<or> (\<exists>g r. trace (snd (flush_all_location_values cfg remote w)) = trace w @ [g, r]
          \<and> req_method g = GET \<and> req_method r = PUT
          \<and> req_json r =
              Some (JObj [(py ''list_values'', JArr [JObj [(py ''value'', JStr (py ''CLEARED''))]])]))"
    by (elim disjE exE) simp_all
  ultimately show ?thesis by (rule conjI)
qed

section \<open>The attribute-definition readers\<close>

lemma reader_not_found_logged:
  assumes "remote (trace w) (ea_get_call cfg ea_name) = Responds resp"
    and "status_code resp = 200" and "body_json resp = Inr data" and "\<not> truthy data"
  shows "last (logged (snd (get_infoblox_ea_definition cfg remote ea_name w))) =
           (ERROR, ''EA '%s' not found in Infoblox.'', [LStr ea_name])"
  using assms
  by (simp add: get_infoblox_ea_definition_def Let_def requests_send_def log_error_def log_info_def)

lemma reader_not_found_logged_flush:
  assumes "remote (trace w) (ea_get_call_flush cfg ea_name) = Responds resp"
    and "status_code resp = 200" and "body_json resp = Inr data" and "\<not> truthy data"
  shows "last (logged (snd (get_infoblox_ea_definition_flush cfg remote ea_name w))) =
           (ERROR, ''EA '%s' not found.'', [LStr ea_name])"
  using assms
  by (simp add: get_infoblox_ea_definition_flush_def Let_def requests_send_def log_error_def
      log_info_def)

lemma reader_success:
  assumes "fst (get_infoblox_ea_definition cfg remote ea_name w) = Inr (ea_def, ea_ref)"
  shows "\<exists>resp data. remote (trace w) (ea_get_call cfg ea_name) = Responds resp
     \<and> status_code resp = 200 \<and> body_json resp = Inr data
     \<and> getitem0 data = Inr ea_def \<and> dict_get ea_def (py ''_ref'') JNull = Inr ea_ref"
  using assms unfolding reader_result
  by (auto split: outcome.splits sum.splits if_splits)

lemma reader_success_flush:
  assumes "fst (get_infoblox_ea_definition_flush cfg remote ea_name w) = Inr (ea_def, ea_ref)"
  shows "\<exists>resp data. remote (trace w) (ea_get_call_flush cfg ea_name) = Responds resp
     \<and> status_code resp = 200 \<and> body_json resp = Inr data
     \<and> getitem0 data = Inr ea_def \<and> dict_get ea_def (py ''_ref'') JNull = Inr ea_ref"
  using assms unfolding reader_result_flush
  by (auto split: outcome.splits sum.splits if_splits)

text \<open>
  C7. For every attribute name, when the answer to the reader's request has status 200
  and the empty array as its body, the reader ends the process with exit status 1 and the
  last log record is the error saying that the attribute was not found; and when the
  reader returns, it returns the first element of the answer's body together with what
  that element holds under \<^verbatim>\<open>_ref\<close>. Both hold for the reader of the importer and for
  the reader of the flush script.
\<close>

theorem reader_not_found_or_definition:
  "(remote (trace w) (ea_get_call cfg ea_name) = Responds resp \<and> status_code resp = 200
      \<and> body_json resp = Inr (JArr []) \<longrightarrow>
        fst (get_infoblox_ea_definition cfg remote ea_name w) = Inl (SysExit 1)
      \<and> exit_code (fst (get_infoblox_ea_definition cfg remote ea_name w)) \<noteq> 0
      \<and> last (logged (snd (get_infoblox_ea_definition cfg remote ea_name w))) =
           (ERROR, ''EA '%s' not found in Infoblox.'', [LStr ea_name]))
   \<and> (fst (get_infoblox_ea_definition cfg remote ea_name w) = Inr (ea_def, ea_ref) \<longrightarrow>
        (\<exists>resp data. remote (trace w) (ea_get_call cfg ea_name) = Responds resp
           \<and> status_code resp = 200 \<and> body_json resp = Inr data
           \<and> getitem0 data = Inr ea_def \<and> dict_get ea_def (py ''_ref'') JNull = Inr ea_ref))
   \<and> (remote (trace w) (ea_get_call_flush cfg ea_name) = Responds resp' \<and> status_code resp' = 200
      \<and> body_json resp' = Inr (JArr []) \<longrightarrow>
        fst (get_infoblox_ea_definition_flush cfg remote ea_name w) = Inl (SysExit 1)
      \<and> exit_code (fst (get_infoblox_ea_definition_flush cfg remote ea_name w)) \<noteq> 0
      \<and> last (logged (snd (get_infoblox_ea_definition_flush cfg remote ea_name w))) =
           (ERROR, ''EA '%s' not found.'', [LStr ea_name]))
   \<and> (fst (get_infoblox_ea_definition_flush cfg remote ea_name w) = Inr (ea_def', ea_ref') \<longrightarrow>
        (\<exists>resp data. remote (trace w) (ea_get_call_flush cfg ea_name) = Responds resp
           \<and> status_code resp = 200 \<and> body_json resp = Inr data
           \<and> getitem0 data = Inr ea_def' \<and> dict_get ea_def' (py ''_ref'') JNull = Inr ea_ref'))"
proof (intro conjI impI)
  assume "remote (trace w) (ea_get_call cfg ea_name) = Responds resp \<and> status_code resp = 200
      \<and> body_json resp = Inr (JArr [])"
  then show "fst (get_infoblox_ea_definition cfg remote ea_name w) = Inl (SysExit 1)"
    and "exit_code (fst (get_infoblox_ea_definition cfg remote ea_name w)) \<noteq> 0"
    and "last (logged (snd (get_infoblox_ea_definition cfg remote ea_name w))) =
           (ERROR, ''EA '%s' not found in Infoblox.'', [LStr ea_name])"
    by (simp_all add: reader_result reader_not_found_logged)
next
  assume "remote (trace w) (ea_get_call_flush cfg ea_name) = Responds resp' \<and> status_code resp' = 200
      \<and> body_json resp' = Inr (JArr [])"
  then show "fst (get_infoblox_ea_definition_flush cfg remote ea_name w) = Inl (SysExit 1)"
    and "exit_code (fst (get_infoblox_ea_definition_flush cfg remote ea_name w)) \<noteq> 0"
    and "last (logged (snd (get_infoblox_ea_definition_flush cfg remote ea_name w))) =
           (ERROR, ''EA '%s' not found.'', [LStr ea_name])"
    by (simp_all add: reader_result_flush reader_not_found_logged_flush)
qed (rule reader_success reader_success_flush, assumption)+

lemma first_definition_ref:
  "dict_get first_definition (py ''_ref'') JNull = Inr (JStr (py ''extensibleattributedef/b25l:Location''))"
  by (simp add: first_definition_def)

lemma reader_two_definitions:
  "fst (get_infoblox_ea_definition example_config two_definitions_remote EXT_ATTR_NAME empty_world)
     = Inr (first_definition, JStr (py ''extensibleattributedef/b25l:Location''))"
  by (simp add: reader_result two_definitions_remote_def first_definition_ref)

lemma first_definition_len:
  "\<exists>lv n. dict_get first_definition (py ''list_values'') (JArr []) = Inr lv \<and> py_len lv = Inr n"
  by (simp add: first_definition_def py_def)

lemma reader_two_definitions_flush:
  "fst (get_infoblox_ea_definition_flush example_config two_definitions_remote EXT_ATTR_NAME empty_world)
     = Inr (first_definition, JStr (py ''extensibleattributedef/b25l:Location''))"
  using first_definition_len
  by (auto simp add: reader_result_flush two_definitions_remote_def first_definition_ref)

theorem reader_not_found_or_definition_witness:
  "fst (get_infoblox_ea_definition example_config accepting_remote EXT_ATTR_NAME empty_world)
      = Inl (SysExit 1)
   \<and> last (logged (snd (get_infoblox_ea_definition example_config accepting_remote EXT_ATTR_NAME
        empty_world))) = (ERROR, ''EA '%s' not found in Infoblox.'', [LStr EXT_ATTR_NAME])
   \<and> fst (get_infoblox_ea_definition_flush example_config accepting_remote EXT_ATTR_NAME empty_world)
      = Inl (SysExit 1)
   \<and> last (logged (snd (get_infoblox_ea_definition_flush example_config accepting_remote
        EXT_ATTR_NAME empty_world))) = (ERROR, ''EA '%s' not found.'', [LStr EXT_ATTR_NAME])
   \<and> fst (get_infoblox_ea_definition example_config two_definitions_remote EXT_ATTR_NAME empty_world)
      = Inr (first_definition, JStr (py ''extensibleattributedef/b25l:Location''))
   \<and> (\<exists>resp data. two_definitions_remote (trace empty_world) (ea_get_call example_config EXT_ATTR_NAME)
          = Responds resp
        \<and> status_code resp = 200 \<and> body_json resp = Inr data
        \<and> getitem0 data = Inr first_definition
        \<and> dict_get first_definition (py ''_ref'') JNull
            = Inr (JStr (py ''extensibleattributedef/b25l:Location'')))
   \<and> fst (get_infoblox_ea_definition_flush example_config two_definitions_remote EXT_ATTR_NAME
        empty_world)
      = Inr (first_definition, JStr (py ''extensibleattributedef/b25l:Location''))
   \<and> (\<exists>resp data. two_definitions_remote (trace empty_world)
          (ea_get_call_flush example_config EXT_ATTR_NAME) = Responds resp
        \<and> status_code resp = 200 \<and> body_json resp = Inr data
        \<and> getitem0 data = Inr first_definition
        \<and> dict_get first_definition (py ''_ref'') JNull
            = Inr (JStr (py ''extensibleattributedef/b25l:Location'')))"
proof -
  let ?empty = "\<lparr>status_code = 200, body_text = [], body_json = Inr (JArr [])\<rparr>"
  have a: "accepting_remote (trace empty_world) (ea_get_call example_config EXT_ATTR_NAME)
             = Responds ?empty \<and> status_code ?empty = 200 \<and> body_json ?empty = Inr (JArr [])"
    and b: "accepting_remote (trace empty_world) (ea_get_call_flush example_config EXT_ATTR_NAME)
             = Responds ?empty \<and> status_code ?empty = 200 \<and> body_json ?empty = Inr (JArr [])"
    by (simp_all add: accepting_remote_def)
  from reader_not_found_or_definition
    [of accepting_remote empty_world example_config EXT_ATTR_NAME ?empty _ _ ?empty]
    a b
  have n: "fst (get_infoblox_ea_definition example_config accepting_remote EXT_ATTR_NAME empty_world)
      = Inl (SysExit 1)
   \<and> last (logged (snd (get_infoblox_ea_definition example_config accepting_remote EXT_ATTR_NAME
        empty_world))) = (ERROR, ''EA '%s' not found in Infoblox.'', [LStr EXT_ATTR_NAME])
   \<and> fst (get_infoblox_ea_definition_flush example_config accepting_remote EXT_ATTR_NAME empty_world)
      = Inl (SysExit 1)
   \<and> last (logged (snd (get_infoblox_ea_definition_flush example_config accepting_remote
        EXT_ATTR_NAME empty_world))) = (ERROR, ''EA '%s' not found.'', [LStr EXT_ATTR_NAME])"
    by blast
  from reader_not_found_or_definition
    [of two_definitions_remote empty_world example_config EXT_ATTR_NAME _ first_definition
       "JStr (py ''extensibleattributedef/b25l:Location'')" _ first_definition
       "JStr (py ''extensibleattributedef/b25l:Location'')"]
    reader_two_definitions reader_two_definitions_flush
  have "(\<exists>resp data. two_definitions_remote (trace empty_world) (ea_get_call example_config EXT_ATTR_NAME)
          = Responds resp
        \<and> status_code resp = 200 \<and> body_json resp = Inr data
        \<and> getitem0 data = Inr first_definition
        \<and> dict_get first_definition (py ''_ref'') JNull
            = Inr (JStr (py ''extensibleattributedef/b25l:Location'')))
   \<and> (\<exists>resp data. two_definitions_remote (trace empty_world)
          (ea_get_call_flush example_config EXT_ATTR_NAME) = Responds resp
        \<and> status_code resp = 200 \<and> body_json resp = Inr data
        \<and> getitem0 data = Inr first_definition
        \<and> dict_get first_definition (py ''_ref'') JNull
            = Inr (JStr (py ''extensibleattributedef/b25l:Location'')))"
    by blast
  with n reader_two_definitions reader_two_definitions_flush show ?thesis by blast
qed

lemma reader_logged_success:
  assumes "remote (trace w) (ea_get_call cfg ea_name) = Responds resp"
    and "status_code resp = 200" and "body_json resp = Inr (JArr (JObj d # rest))"
  shows "map fst (drop (length (logged w))
           (logged (snd (get_infoblox_ea_definition cfg remote ea_name w)))) = [INFO, INFO]"
  using assms
  by (simp add: get_infoblox_ea_definition_def Let_def requests_send_def log_info_def)

lemma reader_logged_success_flush:
  assumes "remote (trace w) (ea_get_call_flush cfg ea_name) = Responds resp"
    and "status_code resp = 200" and "body_json resp = Inr (JArr (JObj d # rest))"
    and "py_len (case map_of d (py ''list_values'') of None \<Rightarrow> JArr [] | Some v \<Rightarrow> v) = Inr n"
  shows "map fst (drop (length (logged w))
           (logged (snd (get_infoblox_ea_definition_flush cfg remote ea_name w)))) = [INFO, INFO]"
  using assms
  by (simp add: get_infoblox_ea_definition_flush_def Let_def requests_send_def log_info_def)

text \<open>
  C10. When the answer to the reader's request has status 200 and a body that is an array
  starting with a definition (a dict), followed by any further elements, the reader
  returns that first definition and its \<^verbatim>\<open>_ref\<close> (\<^verbatim>\<open>None\<close> when it has none) and logs
  nothing above level INFO. The reader of the flush script also takes the length of the
  first definition's \<^verbatim>\<open>list_values\<close> for its log line, so there the first definition's
  \<^verbatim>\<open>list_values\<close>, when present, has to be a list, a dict or a str.
\<close>

theorem reader_returns_first_of_many:
  "(remote (trace w) (ea_get_call cfg ea_name) = Responds resp \<and> status_code resp = 200
      \<and> body_json resp = Inr (JArr (JObj d # rest)) \<longrightarrow>
        fst (get_infoblox_ea_definition cfg remote ea_name w) =
          Inr (JObj d, case map_of d (py ''_ref'') of None \<Rightarrow> JNull | Some v \<Rightarrow> v)
      \<and> map fst (drop (length (logged w))
           (logged (snd (get_infoblox_ea_definition cfg remote ea_name w)))) = [INFO, INFO])
   \<and> (remote (trace w) (ea_get_call_flush cfg ea_name) = Responds resp' \<and> status_code resp' = 200
      \<and> body_json resp' = Inr (JArr (JObj d' # rest'))
      \<and> py_len (case map_of d' (py ''list_values'') of None \<Rightarrow> JArr [] | Some v \<Rightarrow> v) = Inr n \<longrightarrow>
        fst (get_infoblox_ea_definition_flush cfg remote ea_name w) =
          Inr (JObj d', case map_of d' (py ''_ref'') of None \<Rightarrow> JNull | Some v \<Rightarrow> v)
      \<and> map fst (drop (length (logged w))
           (logged (snd (get_infoblox_ea_definition_flush cfg remote ea_name w)))) = [INFO, INFO])"
  by (simp add: reader_result reader_result_flush reader_logged_success
      reader_logged_success_flush)

theorem reader_returns_first_of_many_witness:
  "fst (get_infoblox_ea_definition example_config two_definitions_remote EXT_ATTR_NAME empty_world)
     = Inr (first_definition, JStr (py ''extensibleattributedef/b25l:Location''))
   \<and> map fst (logged (snd (get_infoblox_ea_definition example_config two_definitions_remote
        EXT_ATTR_NAME empty_world))) = [INFO, INFO]
   \<and> fst (get_infoblox_ea_definition_flush example_config two_definitions_remote EXT_ATTR_NAME
        empty_world)
     = Inr (first_definition, JStr (py ''extensibleattributedef/b25l:Location''))
   \<and> map fst (logged (snd (get_infoblox_ea_definition_flush example_config two_definitions_remote
        EXT_ATTR_NAME empty_world))) = [INFO, INFO]"
proof -
  let ?d = "[(py ''_ref'', JStr (py ''extensibleattributedef/b25l:Location'')),
             (py ''list_values'', JArr [JObj [(py ''value'', JStr (py ''US/NYC/HQ''))]])]"
  let ?resp = "\<lparr>status_code = 200, body_text = [],
                body_json = Inr (JArr [first_definition, second_definition])\<rparr>"
  have f: "first_definition = JObj ?d" by (simp add: first_definition_def)
  have r: "(case map_of ?d (py ''_ref'') of None \<Rightarrow> JNull | Some v \<Rightarrow> v)
             = JStr (py ''extensibleattributedef/b25l:Location'')"
    by simp
  have l: "py_len (case map_of ?d (py ''list_values'') of None \<Rightarrow> JArr [] | Some v \<Rightarrow> v) = Inr 1"
    by (simp add: py_def)
  have e: "logged empty_world = []" by (simp add: empty_world_def)
  have a: "two_definitions_remote (trace empty_world) (ea_get_call example_config EXT_ATTR_NAME)
             = Responds ?resp \<and> status_code ?resp = 200
           \<and> body_json ?resp = Inr (JArr (JObj ?d # [second_definition]))"
    and b: "two_definitions_remote (trace empty_world) (ea_get_call_flush example_config EXT_ATTR_NAME)
             = Responds ?resp \<and> status_code ?resp = 200
           \<and> body_json ?resp = Inr (JArr (JObj ?d # [second_definition]))"
    by (simp_all add: two_definitions_remote_def f)
  from reader_returns_first_of_many
    [where remote = two_definitions_remote and w = empty_world and cfg = example_config
       and ea_name = EXT_ATTR_NAME and resp = ?resp and d = ?d and rest = "[second_definition]"
       and resp' = ?resp and d' = ?d and rest' = "[second_definition]" and n = 1]
    a b l
  show ?thesis unfolding r f e by simp
qed

section \<open>The synchronizer\<close>

text \<open>
  The sort key of \<^verbatim>\<open>main\<close> is injective, so sorting any enumeration of the set of
  locations by it gives the list that \<open>main\<close> computes from the ascending enumeration.
\<close>

lemma split_slash_not_Nil: "split_slash s \<noteq> []"
  by (induction s) (auto split: list.splits)

lemma split_slash_not_Nil2: "[] \<noteq> split_slash s"
  using split_slash_not_Nil [of s] by simp

lemma split_slash_inj: "split_slash a = split_slash b \<Longrightarrow> a = b"
proof (induction a arbitrary: b)
  case Nil
  then show ?case
    by (cases b) (auto simp add: split_slash_not_Nil split_slash_not_Nil2 split: if_splits list.splits)
next
  case (Cons c a)
  show ?case
  proof (cases b)
    case Nil
    with Cons.prems show ?thesis
      by (auto simp add: split_slash_not_Nil split_slash_not_Nil2 split: if_splits list.splits)
  next
    case (Cons d b')
    with Cons.prems Cons.IH [of b'] show ?thesis
      by (auto simp add: split_slash_not_Nil split_slash_not_Nil2 split: if_splits list.splits)
  qed
qed

lemma sort_key_inj_set:
  assumes "inj_on f (set xs \<union> set ys)" and "distinct xs" and "distinct ys" and "set xs = set ys"
  shows "sort_key f xs = sort_key f ys"
proof -
  have "map f (sort_key f xs) = map f (sort_key f ys)"
  proof (rule sorted_distinct_set_unique)
    show "sorted (map f (sort_key f xs))" "sorted (map f (sort_key f ys))" by simp_all
    from assms show "distinct (map f (sort_key f xs))" "distinct (map f (sort_key f ys))"
      by (simp_all add: distinct_map inj_on_Un)
    from assms(4) show "set (map f (sort_key f xs)) = set (map f (sort_key f ys))" by simp
  qed
  moreover have "inj_on f (set (sort_key f xs) \<union> set (sort_key f ys))" using assms(1) by simp
  ultimately show ?thesis by (simp add: inj_on_map_eq_map)
qed

lemma sorted_locations_any_order:
  assumes "distinct xs" and "set xs = S"
  shows "sort_key split_slash xs = sort_key split_slash (sorted_list_of_set S)"
proof (rule sort_key_inj_set)
  show "inj_on split_slash (set xs \<union> set (sorted_list_of_set S))"
    by (rule inj_onI) (rule split_slash_inj)
  from assms show "distinct xs" "distinct (sorted_list_of_set S)"
    "set xs = set (sorted_list_of_set S)" by auto
qed

lemma fetcher_traceD:
  "get_snow_locations cfg remote w = (res, w') \<Longrightarrow> trace w' = trace w @ [snow_get_call cfg]"
  using fetcher_trace [of cfg remote w] by simp

lemma reader_traceD:
  "get_infoblox_ea_definition cfg remote ea_name w = (res, w') \<Longrightarrow>
     trace w' = trace w @ [ea_get_call cfg ea_name]"
  using reader_trace [of cfg remote ea_name w] by simp

lemma update_traceD:
  "update_infoblox_ea_values cfg remote ea_ref new_values w = (res, w') \<Longrightarrow>
     trace w' = trace w @ [ea_put_call cfg ea_ref
        (list_values_payload (sorted_list_of_set (take ENUM_MAX_LENGTH ` set new_values)))]"
  using update_trace [of cfg remote ea_ref new_values w] by simp

lemma main_trace:
  "trace (snd (main cfg remote w)) = trace w @ [snow_get_call cfg] \<and> fst (main cfg remote w) \<noteq> Inr ()
   \<or> trace (snd (main cfg remote w)) = trace w @ [snow_get_call cfg, ea_get_call cfg EXT_ATTR_NAME]
       \<and> fst (main cfg remote w) \<noteq> Inr ()
   \<or> (\<exists>ea_ref payload.
        trace (snd (main cfg remote w)) =
          trace w @ [snow_get_call cfg, ea_get_call cfg EXT_ATTR_NAME, ea_put_call cfg ea_ref payload]
        \<and> fst (main cfg remote w) \<noteq> Inr ())
   \<or> (\<exists>ea_ref payload.
        trace (snd (main cfg remote w)) =
          trace w @ [snow_get_call cfg, ea_get_call cfg EXT_ATTR_NAME, ea_put_call cfg ea_ref payload,
                     ea_get_call cfg EXT_ATTR_NAME])"
  unfolding main_def Let_def
  by (auto split: prod.splits sum.splits dest!: fetcher_traceD reader_traceD update_traceD) blast+

lemma in_sync_fetcher:
  "fst (get_snow_locations example_config in_sync_remote w) = Inr {py ''US/LA/West'', py ''US/NYC/HQ''}"
  by (simp add: fetcher_result in_sync_remote_def snow_get_call_def example_config_def strip_def
      is_space_def insert_commute py_def)

lemma in_sync_reader:
  "fst (get_infoblox_ea_definition example_config in_sync_remote EXT_ATTR_NAME w) =
     Inr (in_sync_definition, JStr (py ''extensibleattributedef/b25l:Location''))"
proof -
  have "dict_get in_sync_definition (py ''_ref'') JNull =
          Inr (JStr (py ''extensibleattributedef/b25l:Location''))"
    by (simp add: in_sync_definition_def)
  moreover have "getitem0 (JArr [in_sync_definition]) = Inr in_sync_definition" by simp
  moreover have "in_sync_remote (trace w) (ea_get_call example_config EXT_ATTR_NAME) =
     Responds \<lparr>status_code = 200, body_text = [], body_json = Inr (JArr [in_sync_definition])\<rparr>"
    by (simp add: in_sync_remote_def ea_get_call_def example_config_def py_def)
  ultimately show ?thesis by (simp add: reader_result)
qed

lemma in_sync_allowed_values:
  "allowed_values in_sync_definition = Inr {JStr (py ''US/LA/West''), JStr (py ''US/NYC/HQ'')}"
  by (simp add: allowed_values_def in_sync_definition_def py_def)

lemma in_sync_update:
  "fst (update_infoblox_ea_values example_config in_sync_remote ea_ref new_values w) = Inr ()"
  by (simp add: update_result in_sync_remote_def)

lemma case_run_Inr:
  "fst p = Inr v \<Longrightarrow>
     (case p of (Inl f, w) \<Rightarrow> A f w | (Inr x, w) \<Rightarrow> B x w) = B v (snd p)"
  by (cases p) simp

lemma in_sync_main: "fst (main example_config in_sync_remote w) = Inr ()"
  unfolding main_def Let_def
  by (simp add: case_run_Inr [OF in_sync_fetcher] case_run_Inr [OF in_sync_reader]
      case_run_Inr [OF in_sync_update] in_sync_allowed_values)

lemma case_run_Inl:
  "fst p = Inl f \<Longrightarrow>
     (case p of (Inl f, w) \<Rightarrow> A f w | (Inr x, w) \<Rightarrow> B x w) = A f (snd p)"
  by (cases p) simp

lemma main_fetch_failure:
  assumes "fst (get_snow_locations cfg remote w) = Inl f"
  shows "fst (main cfg remote w) = Inl f"
    and "trace (snd (main cfg remote w)) = trace w @ [snow_get_call cfg]"
proof -
  let ?w1 = "log_info (''Starting ServiceNow -> Infoblox synchronization for EA '%s'' @ [CHR 0x27])
               [LStr EXT_ATTR_NAME] w"
  have "fst (get_snow_locations cfg remote ?w1) = fst (get_snow_locations cfg remote w)"
    by (simp add: fetcher_result)
  with assms have f: "fst (get_snow_locations cfg remote ?w1) = Inl f" by simp
  obtain res w2 where g: "get_snow_locations cfg remote ?w1 = (res, w2)"
    by (cases "get_snow_locations cfg remote ?w1")
  with f have r: "res = Inl f" by simp
  from g fetcher_trace [of cfg remote ?w1] have t: "trace w2 = trace w @ [snow_get_call cfg]"
    by simp
  have m: "main cfg remote w = (Inl f, w2)"
    unfolding main_def Let_def using g r by simp
  show "fst (main cfg remote w) = Inl f" by (simp add: m)
  show "trace (snd (main cfg remote w)) = trace w @ [snow_get_call cfg]"
    by (simp add: m t)
qed

text \<open>
  C6. When the call to the ITSM raises, or its answer has a status other than 200, or the
  answer's body does not parse as JSON, the fetcher ends the process with exit status 1
  after that one request, and so does the synchronizer: its run has issued the ITSM
  request and no other.
\<close>

theorem fetcher_failure_is_fatal:
  assumes "remote (trace w) (snow_get_call cfg) = out"
    and "(\<exists>e. out = Raises e) \<or>
         (\<exists>resp. out = Responds resp \<and> (status_code resp \<noteq> 200 \<or> (\<exists>e. body_json resp = Inl e)))"
  shows "fst (get_snow_locations cfg remote w) = Inl (SysExit 1)
     \<and> trace (snd (get_snow_locations cfg remote w)) = trace w @ [snow_get_call cfg]
     \<and> fst (main cfg remote w) = Inl (SysExit 1)
     \<and> exit_code (fst (main cfg remote w)) \<noteq> 0
     \<and> trace (snd (main cfg remote w)) = trace w @ [snow_get_call cfg]"
proof -
  from assms have f: "fst (get_snow_locations cfg remote w) = Inl (SysExit 1)"
    by (auto simp add: fetcher_result)
  from main_fetch_failure [OF f] f show ?thesis by (simp add: fetcher_trace)
qed

theorem fetcher_failure_is_fatal_witness:
  "fst (get_snow_locations example_config failing_remote empty_world) = Inl (SysExit 1)
   \<and> trace (snd (get_snow_locations example_config failing_remote empty_world))
       = [snow_get_call example_config]
   \<and> fst (main example_config failing_remote empty_world) = Inl (SysExit 1)
   \<and> exit_code (fst (main example_config failing_remote empty_world)) \<noteq> 0
   \<and> trace (snd (main example_config failing_remote empty_world)) = [snow_get_call example_config]"
proof -
  let ?resp = "\<lparr>status_code = 500, body_text = py ''Internal Server Error'',
                body_json = Inl (py ''Expecting value'')\<rparr>"
  have a: "failing_remote (trace empty_world) (snow_get_call example_config) = Responds ?resp"
    by (simp add: failing_remote_def)
  have b: "(\<exists>e. Responds ?resp = Raises e) \<or>
         (\<exists>resp. Responds ?resp = Responds resp \<and>
            (status_code resp \<noteq> 200 \<or> (\<exists>e. body_json resp = Inl e)))"
    by simp
  have t: "trace empty_world = []" by (simp add: empty_world_def)
  from fetcher_failure_is_fatal
    [where remote = failing_remote and w = empty_world and cfg = example_config
       and out = "Responds ?resp", OF a b]
  show ?thesis unfolding t append_Nil .
qed

lemma main_success_updates:
  assumes "fst (main cfg remote w) = Inr ()"
  shows "\<exists>ea_ref payload. trace (snd (main cfg remote w)) =
           trace w @ [snow_get_call cfg, ea_get_call cfg EXT_ATTR_NAME,
                      ea_put_call cfg ea_ref payload, ea_get_call cfg EXT_ATTR_NAME]"
  using main_trace [of cfg remote w] assms by blast

text \<open>
  C1, on the code. The remote \<open>in_sync_remote\<close> has the desired set equal to the current
  set: the fetcher returns the two locations and the attribute's allowed values are
  these two strings. The synchronizer still issues an update, and does so again when it
  is run a second time on the same remote: the comparison \<^verbatim>\<open>new_values == current_values\<close>
  is between a list and a set.
\<close>

theorem main_updates_when_in_sync:
  "fst (get_snow_locations example_config in_sync_remote empty_world)
     = Inr {py ''US/LA/West'', py ''US/NYC/HQ''}
   \<and> fst (get_infoblox_ea_definition example_config in_sync_remote EXT_ATTR_NAME empty_world)
     = Inr (in_sync_definition, JStr (py ''extensibleattributedef/b25l:Location''))
   \<and> allowed_values in_sync_definition
     = Inr {JStr (py ''US/LA/West''), JStr (py ''US/NYC/HQ'')}
   \<and> fst (main example_config in_sync_remote empty_world) = Inr ()
   \<and> map req_method (trace (snd (main example_config in_sync_remote empty_world)))
     = [GET, GET, PUT, GET]
   \<and> fst (main example_config in_sync_remote (snd (main example_config in_sync_remote empty_world)))
     = Inr ()
   \<and> map req_method (trace (snd (main example_config in_sync_remote
        (snd (main example_config in_sync_remote empty_world)))))
     = [GET, GET, PUT, GET, GET, GET, PUT, GET]"
proof -
  let ?w = "snd (main example_config in_sync_remote empty_world)"
  have t: "trace empty_world = []" by (simp add: empty_world_def)
  from main_success_updates [OF in_sync_main, of empty_world]
  have m1: "map req_method (trace ?w) = [GET, GET, PUT, GET]" by (auto simp add: t)
  from main_success_updates [OF in_sync_main, of ?w]
  have "map req_method (trace (snd (main example_config in_sync_remote ?w)))
          = map req_method (trace ?w) @ [GET, GET, PUT, GET]"
    by auto
  with m1 show ?thesis
    by (simp add: in_sync_fetcher in_sync_reader in_sync_allowed_values in_sync_main)
qed

text \<open>
  C8 fails as stated: with a proxy configured, the run of the synchronizer on
  \<open>in_sync_remote\<close> issues four requests, and only the first of them, the ITSM read, has
  the proxy.
\<close>

theorem proxy_not_on_every_call:
  "SERVICENOW_PROXY example_config = Some (py ''http://proxy.example:3128'')
   \<and> map req_proxies (trace (snd (main example_config in_sync_remote empty_world)))
       = [Some [(py ''http'', py ''http://proxy.example:3128''),
                (py ''https'', py ''http://proxy.example:3128'')], None, None, None]
   \<and> \<not> list_all (\<lambda>r. req_proxies r =
            Some [(py ''http'', py ''http://proxy.example:3128''),
                  (py ''https'', py ''http://proxy.example:3128'')])
         (trace (snd (main example_config in_sync_remote empty_world)))"
proof -
  have t: "trace empty_world = []" by (simp add: empty_world_def)
  have p: "req_proxies (snow_get_call example_config) =
      Some [(py ''http'', py ''http://proxy.example:3128''),
            (py ''https'', py ''http://proxy.example:3128'')]"
    by (simp add: snow_get_call_def example_config_def py_def)
  from main_success_updates [OF in_sync_main, of empty_world] obtain ea_ref payload where
    "trace (snd (main example_config in_sync_remote empty_world)) =
       [snow_get_call example_config, ea_get_call example_config EXT_ATTR_NAME,
        ea_put_call example_config ea_ref payload, ea_get_call example_config EXT_ATTR_NAME]"
    by (auto simp add: t)
  moreover have "SERVICENOW_PROXY example_config = Some (py ''http://proxy.example:3128'')"
    by (simp add: example_config_def)
  ultimately show ?thesis by (simp add: p)
qed

text \<open>
  C8, amended. In a run of the synchronizer the first request is the ITSM read, and every
  later request (the reads and the update of the attribute definition) is issued without
  proxies, whatever the configuration. The ITSM read has the proxy for both \<^verbatim>\<open>http\<close> and
  \<^verbatim>\<open>https\<close> when a non-empty proxy URL is configured, and no proxies otherwise. In a run
  of the flush script every request has the proxy for both schemes when a non-empty proxy
  URL is configured, and no proxies otherwise.
\<close>

theorem proxy_by_call_site:
  "(\<exists>rs. trace (snd (main cfg remote w)) = trace w @ snow_get_call cfg # rs
        \<and> list_all (\<lambda>r. req_proxies r = None) rs)
   \<and> req_proxies (snow_get_call cfg) =
       (case SERVICENOW_PROXY cfg of
          None \<Rightarrow> None
        | Some p \<Rightarrow> if p \<noteq> [] then Some [(py ''http'', p), (py ''https'', p)] else None)
   \<and> list_all (\<lambda>r. req_proxies r =
         (case SERVICENOW_PROXY cfg of
            None \<Rightarrow> None
          | Some p \<Rightarrow> if p \<noteq> [] then Some [(py ''http'', p), (py ''https'', p)] else None))
       (drop (length (trace w)) (trace (snd (flush_all_location_values cfg remote w))))"
proof (intro conjI)
  from main_trace [of cfg remote w]
  show "\<exists>rs. trace (snd (main cfg remote w)) = trace w @ snow_get_call cfg # rs
        \<and> list_all (\<lambda>r. req_proxies r = None) rs"
    by (elim disjE exE conjE) simp_all
  show "req_proxies (snow_get_call cfg) =
       (case SERVICENOW_PROXY cfg of
          None \<Rightarrow> None
        | Some p \<Rightarrow> if p \<noteq> [] then Some [(py ''http'', p), (py ''https'', p)] else None)"
    by (simp add: snow_get_call_def)
  from flush_script_trace [of cfg remote w]
  show "list_all (\<lambda>r. req_proxies r =
         (case SERVICENOW_PROXY cfg of
            None \<Rightarrow> None
          | Some p \<Rightarrow> if p \<noteq> [] then Some [(py ''http'', p), (py ''https'', p)] else None))
       (drop (length (trace w)) (trace (snd (flush_all_location_values cfg remote w))))"
    by (elim disjE exE) (simp_all add: proxies_flush_def)
qed

end
